theory Spec2Isabelle
  imports Complex_Main "HOL-Library.Sublist"
begin

section \<open>Strings as the source uses them\<close>

text \<open>
  Python \<open>str\<close> values are modelled as \<open>string\<close> restricted to ASCII text.
  \<open>lower\<close> is \<open>str.lower()\<close>, \<open>contains sub s\<close> is \<open>sub in s\<close>,
  \<open>startswith\<close> and \<open>endswith\<close> are the methods of the same name.
\<close>

definition upper_lower_table :: "(char \<times> char) list" where
  "upper_lower_table = zip ''ABCDEFGHIJKLMNOPQRSTUVWXYZ'' ''abcdefghijklmnopqrstuvwxyz''"

definition lower_char :: "char \<Rightarrow> char" where
  "lower_char c = (case map_of upper_lower_table c of Some d \<Rightarrow> d | None \<Rightarrow> c)"

definition lower :: "string \<Rightarrow> string" where
  "lower s = map lower_char s"

fun contains :: "string \<Rightarrow> string \<Rightarrow> bool" where
  "contains sub [] = (sub = [])"
| "contains sub (c # cs) = (prefix sub (c # cs) \<or> contains sub cs)"

definition startswith :: "string \<Rightarrow> string \<Rightarrow> bool" where
  "startswith s p = prefix p s"

definition endswith :: "string \<Rightarrow> string \<Rightarrow> bool" where
  "endswith s p = prefix (rev p) (rev s)"

section \<open>schema.py: the enumerations\<close>

datatype Gas = CO2 | METHANE | N2O

datatype Sector = TOTAL | CEMENT | TRANSPORT | ENERGY | AGRICULTURE

text \<open>The members of \<open>Metric\<close> carry the suffix \<open>_M\<close>: \<open>SUM\<close>, \<open>MIN\<close> and \<open>MAX\<close> are binders of HOL.\<close>

datatype Metric = SUM_M | AVERAGE_M | MEDIAN_M | MIN_M | MAX_M | STD_M | VARIANCE_M | RANGE_M | CHANGE_M | TREND_M

fun Gas_value :: "Gas \<Rightarrow> string" where
  "Gas_value CO2 = ''co2''"
| "Gas_value METHANE = ''methane''"
| "Gas_value N2O = ''n2o''"

fun Sector_value :: "Sector \<Rightarrow> string" where
  "Sector_value TOTAL = ''total''"
| "Sector_value CEMENT = ''cement''"
| "Sector_value TRANSPORT = ''transport''"
| "Sector_value ENERGY = ''energy''"
| "Sector_value AGRICULTURE = ''agriculture''"

fun Metric_value :: "Metric \<Rightarrow> string" where
  "Metric_value SUM_M = ''sum''"
| "Metric_value AVERAGE_M = ''average''"
| "Metric_value MEDIAN_M = ''median''"
| "Metric_value MIN_M = ''min''"
| "Metric_value MAX_M = ''max''"
| "Metric_value STD_M = ''std''"
| "Metric_value VARIANCE_M = ''variance''"
| "Metric_value RANGE_M = ''range''"
| "Metric_value CHANGE_M = ''change''"
| "Metric_value TREND_M = ''trend''"

section \<open>execution\_layer.py: column resolution and units\<close>

text \<open>
  \<open>find_candidates\<close> is the nested loop
  \<open>for candidate in candidates: for col in columns: if col.lower() == candidate.lower(): return col\<close>.
\<close>

primrec find_candidates :: "string list \<Rightarrow> string list \<Rightarrow> string option" where
  "find_candidates [] columns = None"
| "find_candidates (candidate # rest) columns =
     (case find (\<lambda>col. lower col = lower candidate) columns of
        Some col \<Rightarrow> Some col
      | None \<Rightarrow> find_candidates rest columns)"

text \<open>The test of the final loop of \<open>_get_column_name\<close> (lines 259--265).\<close>

definition fallback_match :: "string \<Rightarrow> string \<Rightarrow> bool" where
  "fallback_match gas_str col =
     (let col_lower = lower col in
      (col_lower = gas_str \<or> startswith col_lower (gas_str @ ''_'') \<or> endswith col_lower (''_'' @ gas_str))
      \<and> \<not> contains ''cement'' col_lower \<and> \<not> contains ''coal'' col_lower
      \<and> \<not> contains ''oil'' col_lower \<and> \<not> contains ''gas'' col_lower)"

text \<open>The sector branches of \<open>_get_column_name\<close> (lines 214--255); \<open>None\<close> when the branch falls through.\<close>

definition sector_branch :: "string \<Rightarrow> Sector option \<Rightarrow> string list \<Rightarrow> string option" where
  "sector_branch gas_str sector columns =
     (if sector = Some TOTAL \<or> sector = None then
        (case find (\<lambda>col. lower col = gas_str) columns of
           Some col \<Rightarrow> Some col
         | None \<Rightarrow> find_candidates (map (\<lambda>suffix. gas_str @ suffix) ['''', ''_emissions'', ''_per_capita'']) columns)
      else if sector = Some CEMENT then
        (case find_candidates [''cement_co2'', ''cement_co2_per_capita''] columns of
           Some col \<Rightarrow> Some col
         | None \<Rightarrow> find (\<lambda>col. contains ''cement'' (lower col) \<and> contains gas_str (lower col)) columns)
      else if sector = Some TRANSPORT then
        find (\<lambda>col. contains ''transport'' (lower col) \<and> contains gas_str (lower col)) columns
      else if sector = Some ENERGY then
        find (\<lambda>col. contains ''energy'' (lower col) \<and> contains gas_str (lower col)) columns
      else if sector = Some AGRICULTURE then
        find (\<lambda>col. (contains ''agriculture'' (lower col) \<or> contains ''agricultural'' (lower col))
                     \<and> contains gas_str (lower col)) columns
      else None)"

definition get_column_name :: "string list \<Rightarrow> Gas option \<Rightarrow> Sector option \<Rightarrow> string option" where
  "get_column_name columns gas sector =
     (case gas of
        None \<Rightarrow> None
      | Some g \<Rightarrow>
          (let gas_str = lower (Gas_value g) in
           case sector_branch gas_str sector columns of
             Some col \<Rightarrow> Some col
           | None \<Rightarrow>
               (if sector = Some TOTAL \<or> sector = None
                then find (fallback_match gas_str) columns
                else None)))"

definition get_unit :: "string \<Rightarrow> string" where
  "get_unit column_name =
     (if contains ''per_capita'' (lower column_name) then ''tonnes per capita''
      else if contains ''co2'' (lower column_name) then ''million tonnes''
      else ''tonnes'')"

section \<open>schema.py: the data model\<close>

record YearFilter =
  year :: "int option"
  year_min :: "int option"
  year_max :: "int option"

text \<open>The field validator of \<open>YearFilter\<close>: \<open>True\<close> when the value is accepted,
  \<open>False\<close> when the validator raises \<open>ValueError\<close>.\<close>

definition validate_year :: "int option \<Rightarrow> bool" where
  "validate_year v = (case v of None \<Rightarrow> True | Some y \<Rightarrow> \<not> (y < 1800 \<or> y > 2100))"

definition valid_YearFilter :: "YearFilter \<Rightarrow> bool" where
  "valid_YearFilter yf = (validate_year (year yf) \<and> validate_year (year_min yf) \<and> validate_year (year_max yf))"

record QueryIntent =
  country :: "string option"
  gas :: "Gas option"
  sector :: "Sector option"
  metric :: "Metric option"
  metrics :: "Metric list option"
  year_filter :: "YearFilter option"
  is_greeting :: bool
  is_small_talk :: bool
  is_explanatory :: bool
  low_confidence :: bool
  needs_clarification :: bool
  clarification_question :: "string option"

text \<open>\<open>QueryIntent()\<close> with every field at its default.\<close>

definition QueryIntent_default :: QueryIntent where
  "QueryIntent_default =
     \<lparr>country = None, gas = None, sector = None, metric = None, metrics = None, year_filter = None,
      is_greeting = False, is_small_talk = False, is_explanatory = False, low_confidence = False,
      needs_clarification = False, clarification_question = None\<rparr>"

text \<open>An intent that pydantic accepted: its year filter, when present, passed \<open>validate_year\<close>.\<close>

definition valid_QueryIntent :: "QueryIntent \<Rightarrow> bool" where
  "valid_QueryIntent intent = (case year_filter intent of None \<Rightarrow> True | Some yf \<Rightarrow> valid_YearFilter yf)"

text \<open>
  Exceptions that the modelled code can raise. \<open>KeyError c\<close> is pandas' error for a missing
  column \<open>c\<close>; \<open>ValidationError\<close> is pydantic's, raised by a model constructor whose
  argument does not fit the declared field type or fails a field validator; the others are
  raised by the provider path of \<open>extract_intent\<close>.
\<close>

datatype exn = KeyError string | ValidationError | JSONDecodeError | TypeError | RuntimeError | ValueError
  | AttributeError

text \<open>
  The \<open>error\<close> string of an \<open>ExecutionResult\<close>, by the place that writes it:
  \<open>ColumnNotFound c\<close> is \<open>f"Column '{column_name}' not found in dataset"\<close>,
  \<open>NoData\<close> is \<open>"No data available for the specified filters"\<close>,
  \<open>ExecutionFailed e\<close> is \<open>f"Execution failed: {str(e)}"\<close>. All three strings are non-empty.
\<close>

datatype exec_error = ColumnNotFound "string option" | NoData | ExecutionFailed exn

datatype filter_value = FStr string | FInt int

type_synonym 'v dict = "(string \<times> 'v) list"

text \<open>\<open>d[k] = v\<close> on an insertion-ordered Python dict.\<close>

definition dict_set :: "string \<Rightarrow> 'v \<Rightarrow> 'v dict \<Rightarrow> 'v dict" where
  "dict_set k v d =
     (if k \<in> fst ` set d then map (\<lambda>(k', v'). if k' = k then (k', v) else (k', v')) d
      else d @ [(k, v)])"

record ExecutionResult =
  "value" :: "real option"
  "values" :: "real dict option"
  unit_str :: "string option"
  applied_filters :: "filter_value dict"
  record_count :: nat
  incomputable_metrics :: "string list option"
  error :: "exec_error option"

text \<open>
  The field \<open>values\<close> is declared \<open>Optional[Dict[str, float]]\<close>: the constructor accepts a
  dict only when every entry is a number, and raises \<open>ValidationError\<close> on a \<open>None\<close> entry.
\<close>

fun validate_values :: "real option dict \<Rightarrow> exn + real dict" where
  "validate_values [] = Inr []"
| "validate_values ((k, None) # rest) = Inl ValidationError"
| "validate_values ((k, Some v) # rest) =
     (case validate_values rest of Inl e \<Rightarrow> Inl e | Inr vs \<Rightarrow> Inr ((k, v) # vs))"

section \<open>The dataset\<close>

text \<open>
  A prepared data frame: the names of its columns and its rows. A row holds the cell of the
  \<open>country\<close> column, the cell of the (numeric) \<open>year\<close> column and the cells of the numeric
  data columns by name; \<open>None\<close> is a missing (NaN) cell. Numbers are exact reals, years
  are integers.
\<close>

record Row =
  row_country :: "string option"
  row_year :: "int option"
  row_cells :: "string \<Rightarrow> real option"

record DataFrame =
  df_columns :: "string list"
  df_rows :: "Row list"

section \<open>execution\_layer.py: filters\<close>

text \<open>Python truthiness of an optional string and of an optional integer.\<close>

definition truthy_str :: "string option \<Rightarrow> bool" where
  "truthy_str s = (case s of None \<Rightarrow> False | Some t \<Rightarrow> t \<noteq> [])"

definition truthy_int :: "int option \<Rightarrow> bool" where
  "truthy_int v = (case v of None \<Rightarrow> False | Some i \<Rightarrow> i \<noteq> 0)"

text \<open>\<open>str(n)\<close> for an integer, as the f-string of \<open>year_range\<close> prints it.\<close>

definition digit_char :: "nat \<Rightarrow> char" where
  "digit_char d = ''0123456789'' ! d"

function str_nat :: "nat \<Rightarrow> string" where
  "str_nat n = (if n < 10 then [digit_char n] else str_nat (n div 10) @ [digit_char (n mod 10)])"
  by pat_completeness auto
termination
  by (relation "measure id") auto

declare str_nat.simps [simp del]

definition str_int :: "int \<Rightarrow> string" where
  "str_int i = (if i < 0 then ''-'' @ str_nat (nat (- i)) else str_nat (nat i))"

text \<open>
  Lines 40--44 of \<open>execute\<close>. The result is the filtered rows with the filters applied so
  far, or the exception together with the \<open>applied_filters\<close> of that moment (the handler
  of \<open>execute\<close> reports them).
\<close>

definition country_step ::
  "DataFrame \<Rightarrow> QueryIntent \<Rightarrow> (exn \<times> filter_value dict) + (Row list \<times> filter_value dict)" where
  "country_step df intent =
     (case country intent of
        None \<Rightarrow> Inr (df_rows df, [])
      | Some c \<Rightarrow>
          if c = [] then Inr (df_rows df, [])
          else if ''country'' \<notin> set (df_columns df) then Inl (KeyError ''country'', [])
          else Inr (filter (\<lambda>r. row_country r = Some c) (df_rows df), dict_set ''country'' (FStr c) []))"

text \<open>Lines 47--62 of \<open>execute\<close>: the \<open>if\<close>/\<open>elif\<close> chain over the year filter.\<close>

definition year_step ::
  "DataFrame \<Rightarrow> QueryIntent \<Rightarrow> Row list \<Rightarrow> filter_value dict \<Rightarrow>
     (exn \<times> filter_value dict) + (Row list \<times> filter_value dict)" where
  "year_step df intent result_df af =
     (case year_filter intent of
        None \<Rightarrow> Inr (result_df, af)
      | Some yf \<Rightarrow>
          if truthy_int (year yf) then
            (if ''year'' \<notin> set (df_columns df) then Inl (KeyError ''year'', af)
             else Inr (filter (\<lambda>r. row_year r = year yf) result_df,
                       dict_set ''year'' (FInt (case year yf of Some y \<Rightarrow> y | None \<Rightarrow> 0)) af))
          else if truthy_int (year_min yf) \<and> truthy_int (year_max yf) then
            (if ''year'' \<notin> set (df_columns df) then Inl (KeyError ''year'', af)
             else (case (year_min yf, year_max yf) of
                     (Some lo, Some hi) \<Rightarrow>
                       Inr (filter (\<lambda>r. case row_year r of None \<Rightarrow> False | Some y \<Rightarrow> y \<ge> lo \<and> y \<le> hi) result_df,
                            dict_set ''year_range'' (FStr (str_int lo @ ''-'' @ str_int hi)) af)
                   | _ \<Rightarrow> Inr (result_df, af)))
          else if truthy_int (year_min yf) then
            (if ''year'' \<notin> set (df_columns df) then Inl (KeyError ''year'', af)
             else (case year_min yf of
                     Some lo \<Rightarrow>
                       Inr (filter (\<lambda>r. case row_year r of None \<Rightarrow> False | Some y \<Rightarrow> y \<ge> lo) result_df,
                            dict_set ''year_min'' (FInt lo) af)
                   | None \<Rightarrow> Inr (result_df, af)))
          else if truthy_int (year_max yf) then
            (if ''year'' \<notin> set (df_columns df) then Inl (KeyError ''year'', af)
             else (case year_max yf of
                     Some hi \<Rightarrow>
                       Inr (filter (\<lambda>r. case row_year r of None \<Rightarrow> False | Some y \<Rightarrow> y \<le> hi) result_df,
                            dict_set ''year_max'' (FInt hi) af)
                   | None \<Rightarrow> Inr (result_df, af)))
          else Inr (result_df, af))"

definition apply_filters ::
  "DataFrame \<Rightarrow> QueryIntent \<Rightarrow> (exn \<times> filter_value dict) + (Row list \<times> filter_value dict)" where
  "apply_filters df intent =
     (case country_step df intent of
        Inl e \<Rightarrow> Inl e
      | Inr (result_df, af) \<Rightarrow> year_step df intent result_df af)"

section \<open>execution\_layer.py: the metrics\<close>

text \<open>
  The aggregates of a pandas \<open>Series\<close> of non-null numbers. \<open>None\<close> stands for NaN, which
  pandas returns on an empty series for everything but \<open>sum\<close>. \<open>std\<close> and \<open>var\<close> are
  called with \<open>ddof=0\<close> (population statistics).
\<close>

definition series_sum :: "real list \<Rightarrow> real option" where
  "series_sum xs = Some (sum_list xs)"

definition series_mean :: "real list \<Rightarrow> real option" where
  "series_mean xs = (if xs = [] then None else Some (sum_list xs / real (length xs)))"

definition series_median :: "real list \<Rightarrow> real option" where
  "series_median xs =
     (let s = sort xs; n = length xs in
      if n = 0 then None
      else if odd n then Some (s ! (n div 2))
      else Some ((s ! (n div 2 - 1) + s ! (n div 2)) / 2))"

definition series_min :: "real list \<Rightarrow> real option" where
  "series_min xs = (case xs of [] \<Rightarrow> None | x # rest \<Rightarrow> Some (fold min rest x))"

definition series_max :: "real list \<Rightarrow> real option" where
  "series_max xs = (case xs of [] \<Rightarrow> None | x # rest \<Rightarrow> Some (fold max rest x))"

definition series_var :: "real list \<Rightarrow> real option" where
  "series_var xs =
     (case series_mean xs of
        None \<Rightarrow> None
      | Some mu \<Rightarrow> Some (sum_list (map (\<lambda>x. (x - mu)\<^sup>2) xs) / real (length xs)))"

definition series_std :: "real list \<Rightarrow> real option" where
  "series_std xs = map_option sqrt (series_var xs)"

definition series_range :: "real list \<Rightarrow> real option" where
  "series_range xs =
     (case (series_max xs, series_min xs) of (Some hi, Some lo) \<Rightarrow> Some (hi - lo) | _ \<Rightarrow> None)"

text \<open>
  Lines 107--109: the rows with both a value and a year, grouped by year, the mean of each
  group, sorted by year.
\<close>

definition year_series :: "string \<Rightarrow> Row list \<Rightarrow> (int \<times> real) list" where
  "year_series column_name result_df =
     (let series_df = List.map_filter
            (\<lambda>r. case (row_year r, row_cells r column_name) of
                    (Some y, Some v) \<Rightarrow> Some (y, v)
                  | _ \<Rightarrow> None) result_df;
          years = sort (remdups (map fst series_df))
      in map (\<lambda>y. (y, (let g = map snd (filter (\<lambda>p. fst p = y) series_df)
                         in sum_list g / real (length g)))) years)"

text \<open>
  \<open>np.polyfit(yrs, vals, 1)[0]\<close>: the slope of the least-squares line through the points,
  here by its closed form over exact reals.
\<close>

definition polyfit_slope :: "(int \<times> real) list \<Rightarrow> real" where
  "polyfit_slope ts =
     (let n = real (length ts);
          xbar = sum_list (map (\<lambda>p. real_of_int (fst p)) ts) / n;
          ybar = sum_list (map snd ts) / n
      in sum_list (map (\<lambda>p. (real_of_int (fst p) - xbar) * (snd p - ybar)) ts)
         / sum_list (map (\<lambda>p. (real_of_int (fst p) - xbar)\<^sup>2) ts))"

text \<open>
  One round of the loop over \<open>metrics_to_compute\<close> (lines 113--169), on the pair of
  \<open>results\<close> and \<open>incomputable\<close>. \<open>metric_value\<close> is the \<open>if\<close>/\<open>elif\<close> chain over
  \<open>metric_name\<close>, which gives \<open>v\<close> and, for \<open>change\<close>, may store the percent change.
\<close>

definition metric_value ::
  "(int \<times> real) list option \<Rightarrow> real list \<Rightarrow> string \<Rightarrow> real option dict \<Rightarrow> real option \<times> real option dict" where
  "metric_value ts vals metric_name results =
     (if metric_name = Metric_value SUM_M then (series_sum vals, results)
      else if metric_name = Metric_value AVERAGE_M then (series_mean vals, results)
      else if metric_name = Metric_value MEDIAN_M then (series_median vals, results)
      else if metric_name = Metric_value MIN_M then (series_min vals, results)
      else if metric_name = Metric_value MAX_M then (series_max vals, results)
      else if metric_name = ''std'' then (series_std vals, results)
      else if metric_name = ''variance'' then (series_var vals, results)
      else if metric_name = ''range'' then (series_range vals, results)
      else if metric_name = ''change'' then
        (case ts of
           None \<Rightarrow> (None, results)
         | Some t \<Rightarrow>
             if length t \<ge> 2 then
               (let first = snd (hd t); last = snd (last t);
                    pct = (if first \<noteq> 0 then Some ((last - first) / first * 100) else None)
                in (Some (last - first),
                    (case pct of
                       None \<Rightarrow> results
                     | Some p \<Rightarrow> dict_set (metric_name @ ''_pct'') (Some p) results)))
             else (None, results))
      else if metric_name = ''trend'' then
        (case ts of
           None \<Rightarrow> (None, results)
         | Some t \<Rightarrow> if length t \<ge> 2 then (Some (polyfit_slope t), results) else (None, results))
      else (series_sum vals, results))"

definition metric_step ::
  "(int \<times> real) list option \<Rightarrow> real list \<Rightarrow> Metric \<Rightarrow> real option dict \<times> string list
     \<Rightarrow> real option dict \<times> string list" where
  "metric_step ts vals m acc =
     (let metric_name = Metric_value m;
          (v, results) = metric_value ts vals metric_name (fst acc)
      in case v of
           None \<Rightarrow> (dict_set metric_name None results, snd acc @ [metric_name])
         | Some x \<Rightarrow> (dict_set metric_name (Some x) results, snd acc))"

definition compute_metrics ::
  "(int \<times> real) list option \<Rightarrow> real list \<Rightarrow> Metric list \<Rightarrow> real option dict \<times> string list" where
  "compute_metrics ts vals metrics_to_compute = fold (metric_step ts vals) metrics_to_compute ([], [])"

text \<open>Lines 89--95: \<open>intent.metrics\<close> when it is a non-empty list, else \<open>[intent.metric]\<close>, else \<open>[SUM]\<close>.\<close>

definition metrics_to_compute :: "QueryIntent \<Rightarrow> Metric list" where
  "metrics_to_compute intent =
     (case metrics intent of
        Some (m # ms) \<Rightarrow> m # ms
      | _ \<Rightarrow> (case metric intent of Some m \<Rightarrow> [m] | None \<Rightarrow> [SUM_M]))"

section \<open>execution\_layer.py: execute\<close>

text \<open>
  Lines 64--190 of \<open>execute\<close>, after the filters: column resolution, the values, the
  metrics and the result. \<open>Inl (e, af)\<close> is an exception \<open>e\<close> raised while
  \<open>applied_filters\<close> was \<open>af\<close>; \<open>Inr r\<close> is a returned result.
\<close>

definition aggregate ::
  "DataFrame \<Rightarrow> Gas option \<Rightarrow> Sector option \<Rightarrow> Metric list \<Rightarrow> Row list \<Rightarrow> filter_value dict
     \<Rightarrow> (exn \<times> filter_value dict) + ExecutionResult" where
  "aggregate df g s to_compute result_df af =
     (case get_column_name (df_columns df) g s of
        None \<Rightarrow>
          Inr \<lparr>value = None, values = None, unit_str = None, applied_filters = af,
               record_count = length result_df, incomputable_metrics = None,
               error = Some (ColumnNotFound None)\<rparr>
      | Some col \<Rightarrow>
          if col = [] \<or> col \<notin> set (df_columns df) then
            Inr \<lparr>value = None, values = None, unit_str = None, applied_filters = af,
                 record_count = length result_df, incomputable_metrics = None,
                 error = Some (ColumnNotFound (Some col))\<rparr>
          else
            (let vals = List.map_filter (\<lambda>r. row_cells r col) result_df in
             if length vals = 0 then
               Inr \<lparr>value = None, values = None, unit_str = None, applied_filters = af,
                    record_count = 0, incomputable_metrics = None, error = Some NoData\<rparr>
             else
               (let unit = get_unit col;
                    ts = (if ''year'' \<in> set (df_columns df) then Some (year_series col result_df) else None);
                    (results, incomputable) = compute_metrics ts vals to_compute
                in case validate_values results of
                     Inl e \<Rightarrow> Inl (e, af)
                   | Inr checked \<Rightarrow>
                       Inr \<lparr>value = (if length results = 1
                                     then (case checked of [] \<Rightarrow> None | kv # _ \<Rightarrow> Some (snd kv))
                                     else None),
                            values = Some checked, unit_str = Some unit, applied_filters = af,
                            record_count = length vals,
                            incomputable_metrics = (if incomputable = [] then None else Some incomputable),
                            error = None\<rparr>)))"

text \<open>The body of the \<open>try\<close> block of \<open>execute\<close>.\<close>

definition execute_body :: "DataFrame \<Rightarrow> QueryIntent \<Rightarrow> (exn \<times> filter_value dict) + ExecutionResult" where
  "execute_body df intent =
     (case apply_filters df intent of
        Inl e \<Rightarrow> Inl e
      | Inr (result_df, af) \<Rightarrow>
          aggregate df (gas intent) (sector intent) (metrics_to_compute intent) result_df af)"

text \<open>\<open>execute\<close>: the \<open>except Exception\<close> handler turns every exception into an error result.\<close>

definition execute :: "DataFrame \<Rightarrow> QueryIntent \<Rightarrow> ExecutionResult" where
  "execute df intent =
     (case execute_body df intent of
        Inr r \<Rightarrow> r
      | Inl (e, af) \<Rightarrow>
          \<lparr>value = None, values = None, unit_str = None, applied_filters = af,
           record_count = 0, incomputable_metrics = None, error = Some (ExecutionFailed e)\<rparr>)"

section \<open>validation\_layer.py\<close>

text \<open>
  The dict that \<open>validate_intent\<close> returns. \<open>Failure errors needs_clarification question\<close>
  is the dict with \<open>success = False\<close>. \<open>Success n\<close> is the dict with \<open>success = True\<close>
  and \<open>normalized_intent = n\<close>, where \<open>n\<close> is either \<open>{"type": t}\<close> or a dict of intent
  fields. A dict of intent fields is written as the \<open>QueryIntent\<close> that
  \<open>QueryIntent(**normalized)\<close> builds from it: a key the dict lacks is at its default.
\<close>

datatype normalized = Kind string | Fields QueryIntent

datatype validation = Failure "string list" bool string | Success normalized

definition validate_intent :: "QueryIntent option \<Rightarrow> validation" where
  "validate_intent i =
     (case i of
        None \<Rightarrow> Failure [''intent is null''] True ''could you clarify your request?''
      | Some intent \<Rightarrow>
          if is_greeting intent
             \<and> \<not> (truthy_str (country intent) \<or> gas intent \<noteq> None \<or> metric intent \<noteq> None
                    \<or> (case metrics intent of None \<Rightarrow> False | Some ms \<Rightarrow> ms \<noteq> [])
                    \<or> year_filter intent \<noteq> None)
          then Success (Kind ''greeting'')
          else if is_small_talk intent then Success (Kind ''small_talk'')
          else if is_explanatory intent then
            Success (Fields (QueryIntent_default
              \<lparr>country := country intent, gas := gas intent,
               sector := Some (case sector intent of None \<Rightarrow> TOTAL | Some s \<Rightarrow> s),
               metric := metric intent, year_filter := year_filter intent\<rparr>))
          else if needs_clarification intent then
            Failure [''needs clarification''] True
              (case clarification_question intent of
                 None \<Rightarrow> ''could you clarify your request?''
               | Some q \<Rightarrow> if q = [] then ''could you clarify your request?'' else q)
          else
            Success (Fields (QueryIntent_default
              \<lparr>country := country intent, gas := gas intent,
               sector := Some (case sector intent of None \<Rightarrow> TOTAL | Some s \<Rightarrow> s),
               metric := metric intent, metrics := metrics intent, year_filter := year_filter intent,
               low_confidence := (country intent = None \<or> gas intent = None)\<rparr>)))"

section \<open>conversation\_layer.py: is\_underspecified\<close>

definition is_underspecified :: "QueryIntent option \<Rightarrow> bool" where
  "is_underspecified i =
     (case i of
        None \<Rightarrow> True
      | Some intent \<Rightarrow>
          (let has_country = truthy_str (country intent);
               has_year = (case year_filter intent of
                             None \<Rightarrow> False
                           | Some yf \<Rightarrow> year yf \<noteq> None \<or> year_min yf \<noteq> None \<or> year_max yf \<noteq> None);
               has_metric = (metric intent \<noteq> None
                             \<or> (case metrics intent of None \<Rightarrow> False | Some ms \<Rightarrow> ms \<noteq> []));
               has_sector = (sector intent \<noteq> None)
           in \<not> (has_country \<or> has_year \<or> has_metric \<or> has_sector)))"

section \<open>views\_refactored.py: QueryView.post after intent extraction\<close>

text \<open>
  The response of \<open>post\<close>, by the branch that returns it. \<open>ExecutionError\<close>,
  \<open>LowConfidenceFallback\<close>, \<open>IncomputableFallback\<close> and \<open>EmptyFallback\<close> all answer with
  the text of \<open>generate_expert_explanation\<close>; \<open>Explanatory\<close> does too.
\<close>

datatype outcome =
    Greeting
  | SmallTalk
  | Explanatory
  | Clarification string
  | InvalidRequest "string list"
  | ExecutionError
  | LowConfidenceData ExecutionResult
  | LowConfidenceFallback
  | IncomputableFallback
  | EmptyFallback
  | Data ExecutionResult

definition underspecified_question :: string where
  "underspecified_question =
     ''I need a bit more detail to answer. Please specify at least one of: '' @
     ''a country, a year or year range, an aggregation metric (e.g. sum, average, standard deviation), or a sector.''"

text \<open>Lines 111--119: an explanatory follow-up takes missing fields from the previous intent.\<close>

definition merge_follow_up :: "QueryIntent option \<Rightarrow> QueryIntent \<Rightarrow> QueryIntent" where
  "merge_follow_up last_intent intent =
     (case last_intent of
        None \<Rightarrow> intent
      | Some li \<Rightarrow>
          if is_explanatory intent then
            intent\<lparr>country := (if \<not> truthy_str (country intent) \<and> truthy_str (country li)
                                 then country li else country intent),
                   gas := (if gas intent = None \<and> gas li \<noteq> None then gas li else gas intent),
                   sector := (if sector intent = None \<and> sector li \<noteq> None then sector li else sector intent)\<rparr>
          else intent)"

text \<open>Lines 247--370: the decisions over the execution result, in the order of the source.\<close>

definition route :: "ExecutionResult \<Rightarrow> bool \<Rightarrow> outcome" where
  "route result low_confidence_flag =
     (if error result \<noteq> None then ExecutionError
      else if low_confidence_flag then
        (let vs = (case values result of None \<Rightarrow> [] | Some d \<Rightarrow> d);
             has_computed = (vs \<noteq> [])
         in if record_count result > 0 \<and> has_computed then LowConfidenceData result
            else LowConfidenceFallback)
      else if (case incomputable_metrics result of None \<Rightarrow> False | Some l \<Rightarrow> l \<noteq> []) then IncomputableFallback
      else if record_count result = 0 then EmptyFallback
      else Data result)"

definition to_QueryIntent :: "normalized \<Rightarrow> QueryIntent" where
  "to_QueryIntent n = (case n of Kind t \<Rightarrow> QueryIntent_default | Fields q \<Rightarrow> q)"

text \<open>
  \<open>post\<close> from line 110 on, with the validator and the executor it was built with as
  arguments, the intent remembered from the session and the extracted intent.
\<close>

definition post_with ::
  "(QueryIntent option \<Rightarrow> validation) \<Rightarrow> (QueryIntent \<Rightarrow> ExecutionResult) \<Rightarrow>
     QueryIntent option \<Rightarrow> QueryIntent \<Rightarrow> outcome" where
  "post_with validator executor last_intent extracted =
     (let intent = merge_follow_up last_intent extracted in
      if is_greeting intent then Greeting
      else if is_small_talk intent then SmallTalk
      else if is_explanatory intent then Explanatory
      else if is_underspecified (Some intent) then Clarification underspecified_question
      else
        (case validator (Some intent) of
           Failure errors needs_clar question \<Rightarrow>
             if needs_clar then Clarification question else InvalidRequest errors
         | Success n \<Rightarrow>
             (let qi = to_QueryIntent n;
                  result = executor qi;
                  low_confidence_flag = low_confidence qi
              in route result low_confidence_flag)))"

definition post :: "DataFrame \<Rightarrow> QueryIntent option \<Rightarrow> QueryIntent \<Rightarrow> outcome" where
  "post df last_intent extracted = post_with validate_intent (execute df) last_intent extracted"

section \<open>schema.py: schema metadata\<close>

text \<open>
  The dict of \<open>get_schema_metadata\<close>, as far as the extractor reads it: the country names,
  the gas tokens, and \<open>year_range\<close> as the pair of \<open>min\<close> and \<open>max\<close> (or \<open>None\<close>).
\<close>

record schema_metadata =
  md_countries :: "string list"
  md_gases :: "string list"
  md_year_range :: "(int \<times> int) option"

text \<open>\<open>[g.value for g in Gas]\<close>, the gases that \<open>get_schema_metadata\<close> always reports.\<close>

definition schema_gases :: "string list" where
  "schema_gases = map Gas_value [CO2, METHANE, N2O]"

section \<open>intent\_extraction\_layer.py: the regular expressions\<close>


definition is_space :: "char \<Rightarrow> bool" where
  "is_space c = (c \<in> set [CHR '' '', CHR 0x09, CHR 0x0A, CHR 0x0B, CHR 0x0C, CHR 0x0D,
                            CHR 0x1C, CHR 0x1D, CHR 0x1E, CHR 0x1F])"

definition is_digit :: "char \<Rightarrow> bool" where
  "is_digit c = (c \<in> set ''0123456789'')"

definition is_word_char :: "char \<Rightarrow> bool" where
  "is_word_char c = (c \<in> set ''abcdefghijklmnopqrstuvwxyzABCDEFGHIJKLMNOPQRSTUVWXYZ0123456789_'')"

definition digit_val :: "char \<Rightarrow> int" where
  "digit_val c =
     (case map_of [(CHR ''0'', 0), (CHR ''1'', 1), (CHR ''2'', 2), (CHR ''3'', 3), (CHR ''4'', 4),
                   (CHR ''5'', 5), (CHR ''6'', 6), (CHR ''7'', 7), (CHR ''8'', 8), (CHR ''9'', 9)] c of
        Some d \<Rightarrow> d | None \<Rightarrow> 0)"

text \<open>\<open>int(s)\<close> for a string of decimal digits.\<close>

definition int_of_digits :: "string \<Rightarrow> int" where
  "int_of_digits s = foldl (\<lambda>a c. 10 * a + digit_val c) 0 s"

text \<open>
  The pieces of a pattern, each tried at the head of the text and returning the rest of the
  text: a literal, \<open>\s+\<close>, \<open>(\d{4})\<close> and \<open>(\d+)\<close>. In the patterns below a run of
  spaces or digits is always followed by a character outside the run's class, so the
  longest run is the only one that can match.
\<close>

definition lit :: "string \<Rightarrow> string \<Rightarrow> string option" where
  "lit p s = (if prefix p s then Some (drop (length p) s) else None)"

definition spaces1 :: "string \<Rightarrow> string option" where
  "spaces1 s = (case s of [] \<Rightarrow> None | c # cs \<Rightarrow> if is_space c then Some (dropWhile is_space cs) else None)"

definition digits4 :: "string \<Rightarrow> (string \<times> string) option" where
  "digits4 s = (if length s \<ge> 4 \<and> list_all is_digit (take 4 s) then Some (take 4 s, drop 4 s) else None)"

definition digits1 :: "string \<Rightarrow> (string \<times> string) option" where
  "digits1 s = (if takeWhile is_digit s = [] then None else Some (takeWhile is_digit s, dropWhile is_digit s))"

text \<open>\<open>re.search\<close>: the match at the leftmost position where the pattern matches.\<close>

fun search :: "(string \<Rightarrow> 'a option) \<Rightarrow> string \<Rightarrow> 'a option" where
  "search m [] = m []"
| "search m (c # cs) = (case m (c # cs) of Some r \<Rightarrow> Some r | None \<Rightarrow> search m cs)"

text \<open>\<open>from\s+(\d{4})\s+to\s+(\d{4})\<close> and \<open>between\s+(\d{4})\s+and\s+(\d{4})\<close>, with both groups.\<close>

definition match_range :: "string \<Rightarrow> string \<Rightarrow> string \<Rightarrow> (string \<times> string) option" where
  "match_range w1 w2 s =
     Option.bind (lit w1 s) (\<lambda>r1.
     Option.bind (spaces1 r1) (\<lambda>r2.
     Option.bind (digits4 r2) (\<lambda>(g1, r3).
     Option.bind (spaces1 r3) (\<lambda>r4.
     Option.bind (lit w2 r4) (\<lambda>r5.
     Option.bind (spaces1 r5) (\<lambda>r6.
     Option.bind (digits4 r6) (\<lambda>(g2, r7). Some (g1, g2))))))))"

text \<open>\<open>last\s+(\d+)\s+years?\<close>, with its group.\<close>

definition match_last_n :: "string \<Rightarrow> string option" where
  "match_last_n s =
     Option.bind (lit ''last'' s) (\<lambda>r1.
     Option.bind (spaces1 r1) (\<lambda>r2.
     Option.bind (digits1 r2) (\<lambda>(g1, r3).
     Option.bind (spaces1 r3) (\<lambda>r4.
     Option.bind (lit ''year'' r4) (\<lambda>r5. Some g1)))))"

text \<open>
  \<open>\b(19|20)\d{2}\b\<close> at the head of the text, given whether the character before it is a
  word character: the whole match.
\<close>

definition match_year :: "bool \<Rightarrow> string \<Rightarrow> string option" where
  "match_year prev_word s =
     (if \<not> prev_word \<and> (prefix ''19'' s \<or> prefix ''20'' s)
         \<and> length s \<ge> 4 \<and> is_digit (s ! 2) \<and> is_digit (s ! 3)
         \<and> (case drop 4 s of [] \<Rightarrow> True | c # _ \<Rightarrow> \<not> is_word_char c)
      then Some (take 4 s) else None)"

fun search_year :: "bool \<Rightarrow> string \<Rightarrow> string option" where
  "search_year prev_word [] = None"
| "search_year prev_word (c # cs) =
     (case match_year prev_word (c # cs) of
        Some g \<Rightarrow> Some g
      | None \<Rightarrow> search_year (is_word_char c) cs)"

section \<open>intent\_extraction\_layer.py: year references\<close>

text \<open>
  Lines 88--107: the year filter dict that the offline heuristics store, or \<open>None\<close> when
  they store none. \<open>yrmax\<close> is \<open>schema_metadata['year_range']['max']\<close>, or \<open>None\<close>.
\<close>

definition bare_year :: "string \<Rightarrow> YearFilter option" where
  "bare_year uq =
     map_option (\<lambda>g. \<lparr>year = Some (int_of_digits g), year_min = None, year_max = None\<rparr>)
       (search_year False uq)"

definition year_refs :: "int option \<Rightarrow> string \<Rightarrow> YearFilter option" where
  "year_refs yrmax uq =
     (case (case search (match_range ''from'' ''to'') uq of
              Some m \<Rightarrow> Some m
            | None \<Rightarrow> search (match_range ''between'' ''and'') uq) of
        Some (g1, g2) \<Rightarrow>
          (let y1 = int_of_digits g1; y2 = int_of_digits g2
           in Some \<lparr>year = None, year_min = Some (min y1 y2), year_max = Some (max y1 y2)\<rparr>)
      | None \<Rightarrow>
          (let m2 = search match_last_n uq in
           if m2 \<noteq> None \<and> truthy_int yrmax then
             (case (m2, yrmax) of
                (Some g, Some mx) \<Rightarrow>
                  Some \<lparr>year = None, year_min = Some (max (mx - int_of_digits g + 1) 0), year_max = Some mx\<rparr>
              | _ \<Rightarrow> None)
           else if contains ''last year'' uq \<and> truthy_int yrmax then
             (case yrmax of
                Some mx \<Rightarrow> Some \<lparr>year = Some mx, year_min = None, year_max = None\<rparr>
              | None \<Rightarrow> None)
           else bare_year uq))"

section \<open>intent\_extraction\_layer.py: the candidate dict and the model constructor\<close>

text \<open>
  The entry of the key \<open>year_filter\<close> in the candidate: no such key, the value
  \<open>null\<close>, a value that is neither \<open>null\<close> nor a dict, or a dict of year values (a key
  of that dict that is absent or holds \<open>null\<close> is \<open>None\<close> in the record).
\<close>

datatype year_entry = NoKey | NullValue | OtherValue | YearDict YearFilter

text \<open>
  \<open>intent_dict\<close>: the candidate that the heuristics fill, with \<open>None\<close> for an absent key.
  Enum fields hold the strings that \<open>QueryIntent(**intent_dict)\<close> has yet to validate;
  \<open>year_filter\<close> holds its entry with the raw dict of year values.
\<close>

record IntentDict =
  d_country :: "string option"
  d_gas :: "string option"
  d_sector :: "string option"
  d_metric :: "string option"
  d_metrics :: "string list option"
  d_year_filter :: year_entry
  d_is_greeting :: "bool option"
  d_is_small_talk :: "bool option"
  d_is_explanatory :: "bool option"
  d_needs_clarification :: "bool option"
  d_clarification_question :: "string option"

definition empty_dict :: IntentDict where
  "empty_dict =
     \<lparr>d_country = None, d_gas = None, d_sector = None, d_metric = None, d_metrics = None,
      d_year_filter = NoKey, d_is_greeting = None, d_is_small_talk = None, d_is_explanatory = None,
      d_needs_clarification = None, d_clarification_question = None\<rparr>"

text \<open>An enum member by its value, as pydantic looks it up; \<open>None\<close> when no member has the value.\<close>

definition Gas_of_value :: "string \<Rightarrow> Gas option" where
  "Gas_of_value s = find (\<lambda>g. Gas_value g = s) [CO2, METHANE, N2O]"

definition Sector_of_value :: "string \<Rightarrow> Sector option" where
  "Sector_of_value s = find (\<lambda>x. Sector_value x = s) [TOTAL, CEMENT, TRANSPORT, ENERGY, AGRICULTURE]"

definition Metric_of_value :: "string \<Rightarrow> Metric option" where
  "Metric_of_value s =
     find (\<lambda>m. Metric_value m = s)
       [SUM_M, AVERAGE_M, MEDIAN_M, MIN_M, MAX_M, STD_M, VARIANCE_M, RANGE_M, CHANGE_M, TREND_M]"

text \<open>An optional enum field: \<open>Inr None\<close> when absent, \<open>Inl ValidationError\<close> on an unknown value.\<close>

definition enum_field :: "(string \<Rightarrow> 'a option) \<Rightarrow> string option \<Rightarrow> exn + 'a option" where
  "enum_field of_value v =
     (case v of
        None \<Rightarrow> Inr None
      | Some s \<Rightarrow> (case of_value s of None \<Rightarrow> Inl ValidationError | Some x \<Rightarrow> Inr (Some x)))"

fun enum_list :: "(string \<Rightarrow> 'a option) \<Rightarrow> string list \<Rightarrow> exn + 'a list" where
  "enum_list of_value [] = Inr []"
| "enum_list of_value (s # rest) =
     (case of_value s of
        None \<Rightarrow> Inl ValidationError
      | Some x \<Rightarrow> (case enum_list of_value rest of Inl e \<Rightarrow> Inl e | Inr xs \<Rightarrow> Inr (x # xs)))"

text \<open>Sequencing of steps that may raise: the first exception ends the computation.\<close>

definition bind_exn :: "exn + 'a \<Rightarrow> ('a \<Rightarrow> exn + 'b) \<Rightarrow> exn + 'b" where
  "bind_exn x f = (case x of Inl e \<Rightarrow> Inl e | Inr a \<Rightarrow> f a)"

definition enum_list_field :: "(string \<Rightarrow> 'a option) \<Rightarrow> string list option \<Rightarrow> exn + 'a list option" where
  "enum_list_field of_value v =
     (case v of
        None \<Rightarrow> Inr None
      | Some l \<Rightarrow> bind_exn (enum_list of_value l) (\<lambda>xs. Inr (Some xs)))"

text \<open>
  The field \<open>year_filter: Optional[YearFilter]\<close>: absent or \<open>null\<close> gives \<open>None\<close>, a dict
  is validated by \<open>validate_year\<close>, anything else is refused.
\<close>

definition year_filter_field :: "year_entry \<Rightarrow> exn + YearFilter option" where
  "year_filter_field e =
     (case e of
        NoKey \<Rightarrow> Inr None
      | NullValue \<Rightarrow> Inr None
      | OtherValue \<Rightarrow> Inl ValidationError
      | YearDict yf \<Rightarrow> if valid_YearFilter yf then Inr (Some yf) else Inl ValidationError)"

text \<open>
  \<open>QueryIntent(**intent_dict)\<close>: pydantic validates every field and raises
  \<open>ValidationError\<close> when an enum value is unknown or \<open>validate_year\<close> rejects a year.
\<close>

definition QueryIntent_of_dict :: "IntentDict \<Rightarrow> exn + QueryIntent" where
  "QueryIntent_of_dict d =
     bind_exn (enum_field Gas_of_value (d_gas d)) (\<lambda>g.
     bind_exn (enum_field Sector_of_value (d_sector d)) (\<lambda>s.
     bind_exn (enum_field Metric_of_value (d_metric d)) (\<lambda>m.
     bind_exn (enum_list_field Metric_of_value (d_metrics d)) (\<lambda>ms.
     bind_exn (year_filter_field (d_year_filter d)) (\<lambda>yf.
       Inr \<lparr>country = d_country d, gas = g, sector = s, metric = m, metrics = ms,
            year_filter = yf,
            is_greeting = (case d_is_greeting d of None \<Rightarrow> False | Some b \<Rightarrow> b),
            is_small_talk = (case d_is_small_talk d of None \<Rightarrow> False | Some b \<Rightarrow> b),
            is_explanatory = (case d_is_explanatory d of None \<Rightarrow> False | Some b \<Rightarrow> b),
            low_confidence = False,
            needs_clarification = (case d_needs_clarification d of None \<Rightarrow> False | Some b \<Rightarrow> b),
            clarification_question = d_clarification_question d\<rparr>)))))"

section \<open>intent\_extraction\_layer.py: the offline heuristics\<close>

text \<open>\<open>metric_map\<close>, in the order of its items.\<close>

definition metric_map :: "(string \<times> string) list" where
  "metric_map =
     [(''average'', ''average''), (''avg'', ''average''), (''mean'', ''average''),
      (''sum'', ''sum''), (''total'', ''sum''),
      (''median'', ''median''),
      (''max'', ''max''), (''maximum'', ''max''), (''highest'', ''max''),
      (''min'', ''min''), (''minimum'', ''min''), (''lowest'', ''min''),
      (''std'', ''std''), (''standard deviation'', ''std''), (''spread'', ''std''),
      (''variance'', ''variance''), (''variation'', ''variance''),
      (''trend'', ''trend''), (''over time'', ''trend''),
      (''change'', ''change''), (''growth'', ''change''), (''increase'', ''change''),
      (''range'', ''range''), (''difference'', ''range'')]"

text \<open>Lines 72--75: the loop that collects the detected metrics.\<close>

definition detect_metrics :: "string \<Rightarrow> string list" where
  "detect_metrics uq =
     fold (\<lambda>(phrase, m) detected. if contains phrase uq \<and> m \<notin> set detected then detected @ [m] else detected)
       metric_map []"

definition compute_kw :: "string list" where
  "compute_kw = [''average'', ''avg'', ''mean'', ''sum'', ''total'', ''trend'', ''compare'', ''versus'', ''vs'',
                 ''per capita'', ''rate'', ''highest'', ''lowest'', ''max'', ''min'', ''median'', ''std'',
                 ''variance'', ''change'', ''range'']"

definition explain_kw_offline :: "string list" where
  "explain_kw_offline = [''why'', ''how'', ''cause'', ''causes'', ''explain'', ''reason'', ''because'', ''impact'',
                         ''affect'', ''describe'', ''what are'', ''what is'', ''tell me about'', ''types of'', ''define'']"

definition general_question_phrases :: "string list" where
  "general_question_phrases = [''what are'', ''what is'', ''tell me about'', ''describe'', ''types of'']"

text \<open>\<open>str.strip()\<close>, and the greeting pattern matched against the whole stripped text.\<close>

definition strip :: "string \<Rightarrow> string" where
  "strip s = rev (dropWhile is_space (rev (dropWhile is_space s)))"

definition greeting_match :: "string \<Rightarrow> bool" where
  "greeting_match s =
     list_ex (\<lambda>g. prefix g s
                  \<and> list_all (\<lambda>c. c \<in> set ''.!?'' \<or> is_space c) (drop (length g) s))
       [''hi'', ''hello'', ''hey'', ''good morning'', ''good afternoon'', ''good evening'']"

text \<open>The bytes of \<open>co\<close> followed by the subscript two (U+2082) in UTF-8.\<close>

definition co2_subscript :: string where
  "co2_subscript = ''co'' @ [CHR 0xE2, CHR 0x82, CHR 0x82]"

text \<open>
  Lines 41--129 of \<open>extract_intent\<close>: the dict that the offline heuristics build from the
  lower-cased query.
\<close>

definition offline_dict :: "schema_metadata \<Rightarrow> string \<Rightarrow> IntentDict" where
  "offline_dict md user_query =
     (let uq = lower user_query;
          country_found = find (\<lambda>c. c \<noteq> [] \<and> contains (lower c) uq) (take 200 (md_countries md));
          gas_scanned = find (\<lambda>g. g \<noteq> [] \<and> contains (lower g) uq) (md_gases md);
          gas_found = (case gas_scanned of
                         Some g \<Rightarrow> Some g
                       | None \<Rightarrow>
                           if contains ''carbon dioxide'' uq \<or> contains co2_subscript uq \<or> contains ''co2'' uq
                           then Some ''co2'' else None);
          detected_metrics = detect_metrics uq;
          sector_default = (case gas_found of
                              None \<Rightarrow> None
                            | Some g \<Rightarrow> if g \<noteq> [] \<and> lower g = ''co2'' then Some ''total'' else None);
          yrmax = (case md_year_range md of None \<Rightarrow> None | Some (mn, mx) \<Rightarrow> Some mx);
          yf = year_refs yrmax uq;
          is_expl = (list_ex (\<lambda>w. contains w uq) explain_kw_offline \<and> \<not> list_ex (\<lambda>w. contains w uq) compute_kw);
          is_general = (list_ex (\<lambda>p. contains p uq) general_question_phrases
                        \<and> \<not> list_ex (\<lambda>tok. contains tok uq) ([''co2'', ''methane'', ''n2o''] @ compute_kw));
          has_data_tokens = (truthy_str country_found \<or> truthy_str gas_found \<or> detected_metrics \<noteq> [] \<or> yf \<noteq> None);
          needs_clar = (list_ex (\<lambda>w. contains w uq) compute_kw
                        \<and> (\<not> truthy_str country_found \<or> \<not> truthy_str gas_found))
      in \<lparr>d_country = country_found, d_gas = gas_found, d_sector = sector_default,
          d_metric = (case detected_metrics of [] \<Rightarrow> None | m # _ \<Rightarrow> Some m),
          d_metrics = (if detected_metrics = [] then None else Some detected_metrics),
          d_year_filter = (case yf of None \<Rightarrow> NoKey | Some found \<Rightarrow> YearDict found),
          d_is_greeting = Some (greeting_match (strip uq) \<and> \<not> has_data_tokens),
          d_is_small_talk = Some False,
          d_is_explanatory = Some (is_expl \<or> is_general),
          d_needs_clarification = Some needs_clar,
          d_clarification_question = None\<rparr>)"

text \<open>
  \<open>extract_intent\<close> when no provider is available (lines 40--131): the returned intent,
  or the exception that leaves the function; this path has no handler.
\<close>

definition extract_intent_offline :: "schema_metadata \<Rightarrow> string \<Rightarrow> exn + QueryIntent" where
  "extract_intent_offline md user_query = QueryIntent_of_dict (offline_dict md user_query)"

section \<open>intent\_extraction\_layer.py: the provider path\<close>

text \<open>
  What \<open>self.llm.generate\<close> does: it raises, or returns something that is not a dict, or a dict with its
  \<open>success\<close> flag and its \<open>response\<close> (absent, a string, a dict, or anything else). A
  dict proposed by the provider is an \<open>IntentDict\<close>: its entries other than \<open>year_filter\<close>
  are taken as well typed.
\<close>

datatype llm_content = ContentStr string | ContentDict IntentDict | ContentOther

datatype llm_response = GenerateRaised | NotADict | Response bool "llm_content option"

text \<open>What \<open>json.loads\<close> makes of a string: an error, a value that is no object, or an object.\<close>

datatype json_result = DecodeError | NonObject | Object IntentDict

definition removeprefix :: "string \<Rightarrow> string \<Rightarrow> string" where
  "removeprefix p s = (if prefix p s then drop (length p) s else s)"

definition removesuffix :: "string \<Rightarrow> string \<Rightarrow> string" where
  "removesuffix p s = (if p \<noteq> [] \<and> suffix p s then take (length s - length p) s else s)"

text \<open>Lines 168--190: from the provider's answer to the candidate dict.\<close>

definition llm_candidate :: "(string \<Rightarrow> json_result) \<Rightarrow> llm_response \<Rightarrow> exn + IntentDict" where
  "llm_candidate json_loads llm_response =
     (case llm_response of
        GenerateRaised \<Rightarrow> Inl RuntimeError
      | NotADict \<Rightarrow> Inl TypeError
      | Response success content \<Rightarrow>
          if \<not> success then Inl RuntimeError
          else (case content of
                  None \<Rightarrow> Inl ValueError
                | Some (ContentStr c) \<Rightarrow>
                    (case json_loads (strip (removesuffix ''```'' (removeprefix ''```json'' (strip c)))) of
                       DecodeError \<Rightarrow> Inl JSONDecodeError
                     | NonObject \<Rightarrow> Inl AttributeError
                     | Object d \<Rightarrow> Inr d)
                | Some (ContentDict d) \<Rightarrow> Inr d
                | Some ContentOther \<Rightarrow> Inl TypeError))"

definition explain_kw_llm :: "string list" where
  "explain_kw_llm = [''why'', ''how'', ''cause'', ''causes'', ''explain'', ''reason'', ''because'', ''impact'', ''affect'']"

text \<open>
  Lines 242--263: the same chain of year patterns as \<open>year_refs\<close>, here storing the keys
  it finds by \<open>intent_dict.setdefault('year_filter', {})[key] = value\<close>: into the dict
  under the key \<open>year_filter\<close>, into a new dict when the key is absent, and with
  \<open>TypeError\<close> when the key holds anything that is no dict.
\<close>

definition store_year_refs :: "YearFilter \<Rightarrow> YearFilter \<Rightarrow> YearFilter" where
  "store_year_refs found base =
     (if year found \<noteq> None then base\<lparr>year := year found\<rparr>
      else base\<lparr>year_min := year_min found, year_max := year_max found\<rparr>)"

definition year_refs_into :: "int option \<Rightarrow> string \<Rightarrow> year_entry \<Rightarrow> exn + year_entry" where
  "year_refs_into yrmax uq existing =
     (case year_refs yrmax uq of
        None \<Rightarrow> Inr existing
      | Some found \<Rightarrow>
          (case existing of
             NoKey \<Rightarrow> Inr (YearDict (store_year_refs found \<lparr>year = None, year_min = None, year_max = None\<rparr>))
           | YearDict yf \<Rightarrow> Inr (YearDict (store_year_refs found yf))
           | NullValue \<Rightarrow> Inl TypeError
           | OtherValue \<Rightarrow> Inl TypeError))"

text \<open>
  Lines 194--279: the heuristic normalisation of the provider's candidate. The truth value of
  the \<open>year_filter\<close> entry in \<open>has_data_tokens\<close> is that of a dict holding a value; for an
  entry that is no dict the constructor of \<open>QueryIntent\<close> raises whatever the flags are.
\<close>

definition normalize_candidate :: "schema_metadata \<Rightarrow> string \<Rightarrow> IntentDict \<Rightarrow> exn + IntentDict" where
  "normalize_candidate md user_query d =
     (let uq = lower user_query;
          country' = (if truthy_str (d_country d) then d_country d
                      else (case find (\<lambda>c. c \<noteq> [] \<and> contains (lower c) uq) (take 200 (md_countries md)) of
                              Some c \<Rightarrow> Some c | None \<Rightarrow> d_country d));
          gas' = (if truthy_str (d_gas d) then d_gas d
                  else (case find (\<lambda>g. g \<noteq> [] \<and> contains (lower g) uq) (md_gases md) of
                          Some g \<Rightarrow> Some g
                        | None \<Rightarrow>
                            if contains ''carbon dioxide'' uq \<or> contains co2_subscript uq \<or> contains ''co2'' uq
                            then Some ''co2'' else d_gas d));
          detected_metrics = (if truthy_str (d_metric d) then [] else detect_metrics uq);
          metric' = (case detected_metrics of [] \<Rightarrow> d_metric d | m # _ \<Rightarrow> Some m);
          metrics' = (if detected_metrics = [] then d_metrics d else Some detected_metrics);
          sector' = (if truthy_str (d_sector d) then d_sector d
                     else (case gas' of
                             None \<Rightarrow> d_sector d
                           | Some g \<Rightarrow> if g \<noteq> [] \<and> lower g = ''co2'' then Some ''total'' else d_sector d));
          yrmax = (case md_year_range md of None \<Rightarrow> None | Some (mn, mx) \<Rightarrow> Some mx)
      in bind_exn (year_refs_into yrmax uq (d_year_filter d)) (\<lambda>yf'.
         (let is_expl = (list_ex (\<lambda>w. contains w uq) explain_kw_llm \<and> \<not> list_ex (\<lambda>w. contains w uq) compute_kw);
              has_data_tokens = (truthy_str country' \<or> truthy_str gas' \<or> truthy_str metric'
                                 \<or> (case metrics' of None \<Rightarrow> False | Some l \<Rightarrow> l \<noteq> [])
                                 \<or> (case yf' of
                                       YearDict yf \<Rightarrow> year yf \<noteq> None \<or> year_min yf \<noteq> None \<or> year_max yf \<noteq> None
                                     | OtherValue \<Rightarrow> True
                                     | _ \<Rightarrow> False));
              needs_clar = (list_ex (\<lambda>w. contains w uq) compute_kw
                            \<and> (\<not> truthy_str country' \<or> \<not> truthy_str gas'))
          in Inr \<lparr>d_country = country', d_gas = gas', d_sector = sector', d_metric = metric',
                  d_metrics = metrics', d_year_filter = yf',
                  d_is_greeting = (case d_is_greeting d of
                                     None \<Rightarrow> Some (greeting_match (strip uq) \<and> \<not> has_data_tokens)
                                   | Some b \<Rightarrow> Some b),
                  d_is_small_talk = d_is_small_talk d,
                  d_is_explanatory = (case d_is_explanatory d of None \<Rightarrow> Some is_expl | Some b \<Rightarrow> Some b),
                  d_needs_clarification = (case d_needs_clarification d of
                                             None \<Rightarrow> Some needs_clar | Some b \<Rightarrow> Some b),
                  d_clarification_question = d_clarification_question d\<rparr>)))"

text \<open>The body of the \<open>try\<close> block of the provider path.\<close>

definition llm_body ::
  "(string \<Rightarrow> json_result) \<Rightarrow> schema_metadata \<Rightarrow> string \<Rightarrow> llm_response \<Rightarrow> exn + QueryIntent" where
  "llm_body json_loads md user_query llm_response =
     bind_exn (llm_candidate json_loads llm_response) (\<lambda>d.
     bind_exn (normalize_candidate md user_query d) QueryIntent_of_dict)"

text \<open>
  \<open>extract_intent\<close> with a provider (lines 133--299): the two handlers turn every
  exception of the body into an intent that asks for clarification.
\<close>

definition extract_intent_llm ::
  "(string \<Rightarrow> json_result) \<Rightarrow> schema_metadata \<Rightarrow> string \<Rightarrow> llm_response \<Rightarrow> QueryIntent" where
  "extract_intent_llm json_loads md user_query llm_response =
     (case llm_body json_loads md user_query llm_response of
        Inr q \<Rightarrow> q
      | Inl e \<Rightarrow>
          if e = JSONDecodeError then
            QueryIntent_default\<lparr>needs_clarification := True,
              clarification_question := Some ''i couldn't parse that request. could you rephrase it?''\<rparr>
          else
            QueryIntent_default\<lparr>needs_clarification := True,
              clarification_question :=
                Some ''something went wrong while processing your query. please try again.''\<rparr>)"

text \<open>
  \<open>extract_intent\<close>: \<open>None\<close> for the provider's answer stands for no available provider.
  \<open>Inl e\<close> is an exception that leaves the function.
\<close>

definition extract_intent ::
  "(string \<Rightarrow> json_result) \<Rightarrow> schema_metadata \<Rightarrow> string \<Rightarrow> llm_response option \<Rightarrow> exn + QueryIntent" where
  "extract_intent json_loads md user_query provider =
     (case provider of
        None \<Rightarrow> extract_intent_offline md user_query
      | Some llm_response \<Rightarrow> Inr (extract_intent_llm json_loads md user_query llm_response))"

section \<open>tests\_refactored.py: the data frame of TestExecutionLayer\<close>

definition test_row :: "string \<Rightarrow> int \<Rightarrow> real \<Rightarrow> real \<Rightarrow> Row" where
  "test_row c y co2 cement_co2 =
     \<lparr>row_country = Some c, row_year = Some y,
      row_cells = map_of [(''co2'', co2), (''cement_co2'', cement_co2)]\<rparr>"

definition test_df :: DataFrame where
  "test_df =
     \<lparr>df_columns = [''country'', ''year'', ''co2'', ''cement_co2''],
      df_rows = [test_row ''China'' 2020 1000 100, test_row ''United States'' 2020 500 50,
                 test_row ''India'' 2020 300 30, test_row ''China'' 2021 1100 110]\<rparr>"

text \<open>\<open>QueryIntent(country="China", gas=Gas.CO2, sector=Sector.TOTAL)\<close>, the intent of those tests.\<close>

definition china_co2 :: QueryIntent where
  "china_co2 = QueryIntent_default\<lparr>country := Some ''China'', gas := Some CO2, sector := Some TOTAL\<rparr>"

text \<open>A data frame whose first year holds the value zero.\<close>

definition zero_df :: DataFrame where
  "zero_df =
     \<lparr>df_columns = [''country'', ''year'', ''co2'', ''cement_co2''],
      df_rows = [test_row ''China'' 2020 0 0, test_row ''China'' 2021 50 5]\<rparr>"

text \<open>\<open>get_schema_metadata\<close> of the test data frame.\<close>

definition test_md :: schema_metadata where
  "test_md = \<lparr>md_countries = [''China'', ''India'', ''United States''], md_gases = schema_gases,
              md_year_range = Some (2020, 2021)\<rparr>"

section \<open>Facts about the string operations\<close>

lemma contains_iff: "contains sub s \<longleftrightarrow> (\<exists>ps ss. s = ps @ sub @ ss)"
proof (induction s)
  case Nil
  show ?case by auto
next
  case (Cons c cs)
  show ?case
  proof
    assume "contains sub (c # cs)"
    then consider "prefix sub (c # cs)" | "contains sub cs" by auto
    then show "\<exists>ps ss. c # cs = ps @ sub @ ss"
    proof cases
      case 1
      then obtain ss where "c # cs = sub @ ss" by (auto simp: prefix_def)
      then have "c # cs = [] @ sub @ ss" by simp
      then show ?thesis by blast
    next
      case 2
      with Cons.IH obtain ps ss where "cs = ps @ sub @ ss" by blast
      then have "c # cs = (c # ps) @ sub @ ss" by simp
      then show ?thesis by blast
    qed
  next
    assume "\<exists>ps ss. c # cs = ps @ sub @ ss"
    then obtain ps ss where eq: "c # cs = ps @ sub @ ss" by blast
    show "contains sub (c # cs)"
    proof (cases ps)
      case Nil
      with eq have "prefix sub (c # cs)" by (simp add: prefix_def)
      then show ?thesis by simp
    next
      case (Cons p ps')
      with eq have "cs = ps' @ sub @ ss" by simp
      with Cons.IH have "contains sub cs" by blast
      then show ?thesis by simp
    qed
  qed
qed

lemma contains_lower: "contains sub s \<Longrightarrow> contains (lower sub) (lower s)"
  unfolding contains_iff lower_def by (metis map_append)

lemma lower_cement: "lower ''cement'' = ''cement''"
  by (simp add: lower_def lower_char_def upper_lower_table_def)

lemma lower_coal: "lower ''coal'' = ''coal''"
  by (simp add: lower_def lower_char_def upper_lower_table_def)

lemma lower_oil: "lower ''oil'' = ''oil''"
  by (simp add: lower_def lower_char_def upper_lower_table_def)

lemma find_Some_mem: "find P xs = Some x \<Longrightarrow> x \<in> set xs \<and> P x"
  by (induction xs) (auto split: if_splits)

lemma find_candidates_Some:
  "find_candidates cands columns = Some col \<Longrightarrow>
     col \<in> set columns \<and> (\<exists>c \<in> set cands. lower col = lower c)"
proof (induction cands)
  case Nil
  then show ?case by simp
next
  case (Cons c cs)
  show ?case
  proof (cases "find (\<lambda>col. lower col = lower c) columns")
    case None
    with Cons show ?thesis by simp
  next
    case (Some col')
    with Cons.prems have "col' = col" by simp
    with Some show ?thesis by (auto dest: find_Some_mem)
  qed
qed

lemma find_candidates_None:
  "find_candidates cands columns = None \<longleftrightarrow>
     (\<forall>c \<in> set cands. \<forall>col \<in> set columns. lower col \<noteq> lower c)"
  by (induction cands) (auto simp: find_None_iff split: option.splits dest: find_Some_mem)

section \<open>Column resolution: what a resolved column looks like\<close>

lemmas lower_eval = lower_def lower_char_def upper_lower_table_def

lemma not_contains_lower:
  "lower sub = sub \<Longrightarrow> \<not> contains sub (lower s) \<Longrightarrow> \<not> contains sub s"
  using contains_lower by fastforce

lemma contains_self: "contains g g"
  unfolding contains_iff by (metis append_Nil append_Nil2)

lemma startswith_contains: "startswith s (g @ t) \<Longrightarrow> contains g s"
  unfolding contains_iff startswith_def prefix_def by (metis append_Nil append_assoc)

lemma endswith_contains: "endswith s (t @ g) \<Longrightarrow> contains g s"
proof -
  assume "endswith s (t @ g)"
  then have "suffix (t @ g) s" by (simp add: endswith_def suffix_to_prefix)
  then obtain ps where "s = ps @ t @ g" by (auto simp: suffix_def)
  then have "s = (ps @ t) @ g @ []" by simp
  then show ?thesis unfolding contains_iff by blast
qed

lemma fallback_match_contains: "fallback_match g col \<Longrightarrow> contains g (lower col)"
  unfolding fallback_match_def Let_def
  using contains_self startswith_contains endswith_contains by metis

lemma fallback_match_excludes:
  "fallback_match g col \<Longrightarrow>
     \<not> contains ''cement'' (lower col) \<and> \<not> contains ''coal'' (lower col) \<and> \<not> contains ''oil'' (lower col)"
  unfolding fallback_match_def Let_def by simp

lemma total_branch_lower:
  assumes "sector_branch ''co2'' (Some TOTAL) columns = Some col"
  shows "col \<in> set columns \<and> lower col \<in> {''co2'', ''co2_emissions'', ''co2_per_capita''}"
proof (cases "find (\<lambda>col. lower col = ''co2'') columns")
  case (Some c)
  with assms have "c = col" by (simp add: sector_branch_def)
  with Some show ?thesis by (auto dest: find_Some_mem)
next
  case None
  with assms have "find_candidates [''co2'', ''co2_emissions'', ''co2_per_capita''] columns = Some col"
    by (simp add: sector_branch_def)
  from find_candidates_Some[OF this] show ?thesis by (auto simp: lower_eval)
qed


lemma find_candidates_cement:
  "find_candidates [''cement_co2'', ''cement_co2_per_capita''] columns = Some col \<Longrightarrow> contains ''co2'' (lower col)"
  by (drule find_candidates_Some) (auto simp: lower_eval)

lemma sector_branch_co2_contains:
  assumes "sector_branch ''co2'' sec columns = Some col"
  shows "contains ''co2'' (lower col)"
proof (cases sec)
  case None
  with assms have "sector_branch ''co2'' (Some TOTAL) columns = Some col" by (simp add: sector_branch_def)
  from total_branch_lower[OF this] show ?thesis by auto
next
  case (Some s)
  show ?thesis
  proof (cases s)
    case TOTAL
    with Some assms total_branch_lower[of columns col] show ?thesis by auto
  next
    case CEMENT
    show ?thesis
    proof (cases "find_candidates [''cement_co2'', ''cement_co2_per_capita''] columns")
      case None
      with assms Some CEMENT show ?thesis by (auto simp: sector_branch_def dest: find_Some_mem)
    next
      case (Some c)
      with assms \<open>sec = Some s\<close> CEMENT have "c = col" by (simp add: sector_branch_def)
      with Some find_candidates_cement show ?thesis by blast
    qed
  next
    case TRANSPORT
    with assms Some show ?thesis by (auto simp: sector_branch_def dest: find_Some_mem)
  next
    case ENERGY
    with assms Some show ?thesis by (auto simp: sector_branch_def dest: find_Some_mem)
  next
    case AGRICULTURE
    with assms Some show ?thesis by (auto simp: sector_branch_def dest: find_Some_mem)
  qed
qed

lemma resolved_co2_contains:
  assumes "get_column_name columns (Some CO2) sec = Some col"
  shows "contains ''co2'' (lower col)"
proof (cases "sector_branch ''co2'' sec columns")
  case (Some c)
  with assms have "c = col" by (simp add: get_column_name_def lower_eval)
  with Some sector_branch_co2_contains show ?thesis by blast
next
  case None
  with assms have "find (fallback_match ''co2'') columns = Some col"
    by (simp add: get_column_name_def lower_eval split: if_splits)
  then show ?thesis using fallback_match_contains by (blast dest: find_Some_mem)
qed

lemma lower_append: "lower (a @ b) = lower a @ lower b"
  by (simp add: lower_def)

lemma lower_gas_value: "lower (Gas_value g) = Gas_value g"
  by (cases g) (simp_all add: lower_eval)

lemma prefix_token_contains: "lower col = Gas_value g @ x \<Longrightarrow> contains (Gas_value g) (lower col)"
proof -
  assume "lower col = Gas_value g @ x"
  then have "startswith (lower col) (Gas_value g @ x)" by (simp add: startswith_def)
  then show ?thesis by (rule startswith_contains)
qed

lemma total_branch_token:
  assumes "sector_branch (Gas_value g) sec columns = Some col" "sec = Some TOTAL \<or> sec = None"
  shows "contains (Gas_value g) (lower col)"
proof (cases "find (\<lambda>col. lower col = Gas_value g) columns")
  case (Some c)
  with assms have "c = col" by (auto simp: sector_branch_def)
  with Some have "lower col = Gas_value g @ []" by (auto dest: find_Some_mem)
  then show ?thesis by (rule prefix_token_contains)
next
  case None
  with assms have f: "find_candidates (map (\<lambda>suffix. Gas_value g @ suffix) [[], ''_emissions'', ''_per_capita'']) columns = Some col"
    by (auto simp: sector_branch_def)
  from find_candidates_Some[OF f] obtain c where
    c: "c \<in> set (map (\<lambda>suffix. Gas_value g @ suffix) [[], ''_emissions'', ''_per_capita''])"
    and l: "lower col = lower c"
    by blast
  from c obtain suffix where "c = Gas_value g @ suffix" by auto
  with l have "lower col = Gas_value g @ lower suffix"
    by (simp only: lower_append lower_gas_value)
  then show ?thesis by (rule prefix_token_contains)
qed

lemma sector_branch_token:
  assumes "sector_branch (Gas_value g) sec columns = Some col"
  shows "contains (Gas_value g) (lower col) \<or> contains ''co2'' (lower col)"
proof -
  consider (total) "sec = Some TOTAL \<or> sec = None" | (cement) "sec = Some CEMENT"
    | (transport) "sec = Some TRANSPORT" | (energy) "sec = Some ENERGY" | (agri) "sec = Some AGRICULTURE"
    by (cases sec) (auto, metis Sector.exhaust)
  then show ?thesis
  proof cases
    case total
    with assms total_branch_token show ?thesis by blast
  next
    case cement
    show ?thesis
    proof (cases "find_candidates [''cement_co2'', ''cement_co2_per_capita''] columns")
      case (Some c)
      with assms cement have "find_candidates [''cement_co2'', ''cement_co2_per_capita''] columns = Some col"
        by (simp add: sector_branch_def)
      then show ?thesis using find_candidates_cement by blast
    next
      case None
      with assms cement have
        "find (\<lambda>col. contains ''cement'' (lower col) \<and> contains (Gas_value g) (lower col)) columns = Some col"
        by (simp add: sector_branch_def)
      from find_Some_mem[OF this] show ?thesis by simp
    qed
  next
    case transport
    with assms have
      "find (\<lambda>col. contains ''transport'' (lower col) \<and> contains (Gas_value g) (lower col)) columns = Some col"
      by (simp add: sector_branch_def)
    from find_Some_mem[OF this] show ?thesis by simp
  next
    case energy
    with assms have
      "find (\<lambda>col. contains ''energy'' (lower col) \<and> contains (Gas_value g) (lower col)) columns = Some col"
      by (simp add: sector_branch_def)
    from find_Some_mem[OF this] show ?thesis by simp
  next
    case agri
    with assms have
      "find (\<lambda>col. (contains ''agriculture'' (lower col) \<or> contains ''agricultural'' (lower col))
                     \<and> contains (Gas_value g) (lower col)) columns = Some col"
      by (simp add: sector_branch_def)
    from find_Some_mem[OF this] show ?thesis by simp
  qed
qed

lemma resolved_contains_token:
  assumes "get_column_name columns (Some g) sec = Some col"
  shows "contains (Gas_value g) (lower col) \<or> contains ''co2'' (lower col)"
proof (cases "sector_branch (Gas_value g) sec columns")
  case (Some c)
  with assms have "c = col" by (simp add: get_column_name_def lower_gas_value)
  with Some sector_branch_token show ?thesis by blast
next
  case None
  with assms have "find (fallback_match (Gas_value g)) columns = Some col"
    by (simp add: get_column_name_def lower_gas_value split: if_splits)
  from find_Some_mem[OF this] have "fallback_match (Gas_value g) col" by simp
  then have "contains (Gas_value g) (lower col)" by (rule fallback_match_contains)
  then show ?thesis by simp
qed

section \<open>Facts about the filters\<close>

lemma truthy_valid_year: "validate_year (Some y) \<Longrightarrow> truthy_int (Some y)"
  by (auto simp: validate_year_def truthy_int_def)

lemma year_step_year:
  assumes "validate_year (Some y)" "year_filter intent = Some yf" "year yf = Some y"
  shows "year_step df intent result_df af =
     (if ''year'' \<notin> set (df_columns df) then Inl (KeyError ''year'', af)
      else Inr (filter (\<lambda>r. row_year r = Some y) result_df, dict_set ''year'' (FInt y) af))"
  using assms truthy_valid_year[of y] by (simp add: year_step_def)

lemma aggregate_no_rows:
  "\<exists>e. aggregate df g s to_compute [] af =
          Inr \<lparr>value = None, values = None, unit_str = None, applied_filters = af,
               record_count = 0, incomputable_metrics = None, error = Some e\<rparr>
        \<and> (e = NoData \<or> (\<exists>c. e = ColumnNotFound c))"
  by (auto simp: aggregate_def List.map_filter_def split: option.splits)

text \<open>The equations that evaluate \<open>execute\<close> on the test data frame.\<close>

lemmas exec_eval = execute_def execute_body_def aggregate_def apply_filters_def country_step_def year_step_def
  dict_set_def truthy_int_def truthy_str_def get_column_name_def sector_branch_def
  lower_def lower_char_def upper_lower_table_def get_unit_def metrics_to_compute_def
  compute_metrics_def metric_step_def metric_value_def year_series_def List.map_filter_def
  series_sum_def series_mean_def test_df_def china_co2_def test_row_def QueryIntent_default_def

lemmas data_eval = apply_filters_def country_step_def year_step_def dict_set_def truthy_int_def truthy_str_def
  get_column_name_def sector_branch_def lower_def lower_char_def upper_lower_table_def
  metrics_to_compute_def year_series_def List.map_filter_def
  test_df_def zero_df_def china_co2_def test_row_def QueryIntent_default_def

section \<open>Facts about the view\<close>

lemma is_underspecified_iff:
  "is_underspecified (Some intent) \<longleftrightarrow>
     \<not> truthy_str (country intent)
     \<and> (case year_filter intent of None \<Rightarrow> True
         | Some yf \<Rightarrow> year yf = None \<and> year_min yf = None \<and> year_max yf = None)
     \<and> metric intent = None
     \<and> (case metrics intent of None \<Rightarrow> True | Some ms \<Rightarrow> ms = [])
     \<and> sector intent = None"
  by (auto simp: is_underspecified_def Let_def split: option.splits)

lemma merge_follow_up_not_explanatory:
  "\<not> is_explanatory intent \<Longrightarrow> merge_follow_up last_intent intent = intent"
  by (simp add: merge_follow_up_def split: option.splits)

section \<open>Facts about the metrics loop\<close>

lemma map_of_replace:
  "map_of (map (\<lambda>(k', v'). if k' = k then (k', v) else (k', v')) d) x =
     (if x = k then map_option (\<lambda>_. v) (map_of d k) else map_of d x)"
  by (induction d) auto

lemma map_of_dict_set: "map_of (dict_set k v d) = (map_of d)(k \<mapsto> v)"
proof (cases "k \<in> fst ` set d")
  case False
  then have "map_of d k = None" by (simp add: map_of_eq_None_iff)
  with False show ?thesis
    by (auto simp: dict_set_def map_add_def fun_eq_iff split: option.splits)
next
  case True
  then obtain b where "map_of d k = Some b"
    by (metis map_of_eq_None_iff not_None_eq)
  with True show ?thesis
    by (auto simp: dict_set_def map_of_replace fun_eq_iff)
qed

lemma set_dict_set_subset: "set (dict_set k v d) \<subseteq> insert (k, v) (set d)"
  by (auto simp: dict_set_def split: if_splits)

lemma keys_dict_set: "fst ` set (dict_set k v d) = insert k (fst ` set d)"
proof -
  have "dom (map_of (dict_set k v d)) = insert k (dom (map_of d))"
    by (simp add: map_of_dict_set)
  then show ?thesis by (simp add: dom_map_of_conv_image_fst)
qed

lemma dict_set_mem_self: "(k, v) \<in> set (dict_set k v d)"
proof (cases "k \<in> fst ` set d")
  case False
  then show ?thesis by (simp add: dict_set_def)
next
  case True
  then obtain b where b: "(k, b) \<in> set d" by auto
  have "(\<lambda>(k', v'). if k' = k then (k', v) else (k', v')) (k, b) = (k, v)" by simp
  with b have "(k, v) \<in> (\<lambda>(k', v'). if k' = k then (k', v) else (k', v')) ` set d"
    by (metis (no_types, lifting) image_eqI)
  with True show ?thesis by (simp add: dict_set_def)
qed

lemma dict_set_mem_other:
  assumes "(k0, v0) \<in> set d" "k \<noteq> k0"
  shows "(k0, v0) \<in> set (dict_set k v d)"
proof -
  have "(\<lambda>(k', v'). if k' = k then (k', v) else (k', v')) (k0, v0) = (k0, v0)"
    using assms(2) by simp
  with assms(1) have "(k0, v0) \<in> (\<lambda>(k', v'). if k' = k then (k', v) else (k', v')) ` set d"
    by (metis (no_types, lifting) image_eqI)
  with assms(1) show ?thesis by (simp add: dict_set_def)
qed

lemma validate_values_None: "(k, None) \<in> set rs \<Longrightarrow> validate_values rs = Inl ValidationError"
proof (induction rs rule: validate_values.induct)
  case 1
  then show ?case by simp
next
  case (2 k' rest)
  then show ?case by simp
next
  case (3 k' v rest)
  then show ?case by auto
qed

lemma validate_values_all_Some:
  "\<forall>kv \<in> set rs. snd kv \<noteq> None \<Longrightarrow> validate_values rs = Inr (map (\<lambda>kv. (fst kv, the (snd kv))) rs)"
proof (induction rs rule: validate_values.induct)
  case 1
  then show ?case by simp
next
  case (2 k' rest)
  then show ?case by simp
next
  case (3 k' v rest)
  then show ?case by simp
qed

lemma map_of_checked:
  "\<forall>kv \<in> set rs. snd kv \<noteq> None \<Longrightarrow>
     map_of (map (\<lambda>kv. (fst kv, the (snd kv))) rs) k = map_option the (map_of rs k)"
  by (induction rs) auto

lemma keys_checked: "fst ` set (map (\<lambda>kv. (fst kv, the (snd kv))) rs) = fst ` set rs"
  by (induction rs) auto

lemma Metric_value_not_pct: "Metric_value m \<noteq> ''change_pct''"
  by (cases m) simp_all

lemma Metric_value_inj: "Metric_value m = Metric_value m' \<longleftrightarrow> m = m'"
  by (cases m; cases m') simp_all

lemma Metric_value_change: "Metric_value m = ''change'' \<longleftrightarrow> m = CHANGE_M"
  by (cases m) simp_all

lemma Metric_value_trend: "Metric_value m = ''trend'' \<longleftrightarrow> m = TREND_M"
  by (cases m) simp_all

lemma metric_value_fst: "fst (metric_value ts vals n r) = fst (metric_value ts vals n [])"
  by (simp add: metric_value_def Let_def split: option.splits)

lemma metric_value_other: "m \<noteq> CHANGE_M \<Longrightarrow> snd (metric_value ts vals (Metric_value m) r) = r"
  by (cases m) (simp_all add: metric_value_def split: option.splits)

lemma metric_value_change_pct:
  "2 \<le> length t \<Longrightarrow> snd (hd t) \<noteq> 0 \<Longrightarrow>
     metric_value (Some t) vals ''change'' r =
       (Some (snd (last t) - snd (hd t)),
        dict_set ''change_pct'' (Some ((snd (last t) - snd (hd t)) / snd (hd t) * 100)) r)"
  by (simp add: metric_value_def Let_def)

lemma metric_value_change_zero:
  "2 \<le> length t \<Longrightarrow> snd (hd t) = 0 \<Longrightarrow>
     metric_value (Some t) vals ''change'' r = (Some (snd (last t) - snd (hd t)), r)"
  by (simp add: metric_value_def Let_def)

lemma metric_value_short:
  "(case ts of None \<Rightarrow> True | Some t \<Rightarrow> length t < 2) \<Longrightarrow> m = CHANGE_M \<or> m = TREND_M \<Longrightarrow>
     metric_value ts vals (Metric_value m) r = (None, r)"
  by (auto simp: metric_value_def split: option.splits)

lemma metric_step_unfold:
  "metric_step ts vals m acc =
     (case fst (metric_value ts vals (Metric_value m) (fst acc)) of
        None \<Rightarrow> (dict_set (Metric_value m) None (snd (metric_value ts vals (Metric_value m) (fst acc))),
                 snd acc @ [Metric_value m])
      | Some x \<Rightarrow> (dict_set (Metric_value m) (Some x) (snd (metric_value ts vals (Metric_value m) (fst acc))),
                   snd acc))"
  by (simp add: metric_step_def Let_def split: prod.splits option.splits)

subsection \<open>change and change_pct through the loop\<close>

lemma step_change_pct_kept:
  assumes "2 \<le> length t" "snd (hd t) \<noteq> 0"
      and "map_of (fst acc) ''change_pct'' = Some (Some ((snd (last t) - snd (hd t)) / snd (hd t) * 100))"
  shows "map_of (fst (metric_step (Some t) vals m acc)) ''change_pct''
           = Some (Some ((snd (last t) - snd (hd t)) / snd (hd t) * 100))"
proof (cases "m = CHANGE_M")
  case True
  then show ?thesis
    using assms(1,2) by (simp add: metric_step_unfold metric_value_change_pct map_of_dict_set)
next
  case False
  then show ?thesis
    using assms(3) Metric_value_not_pct[of m]
    by (auto simp: metric_step_unfold metric_value_other map_of_dict_set split: option.splits)
qed

lemma step_change_pct_set:
  assumes "2 \<le> length t" "snd (hd t) \<noteq> 0"
  shows "map_of (fst (metric_step (Some t) vals CHANGE_M acc)) ''change_pct''
           = Some (Some ((snd (last t) - snd (hd t)) / snd (hd t) * 100))"
  using assms by (simp add: metric_step_unfold metric_value_change_pct map_of_dict_set)

lemma fold_change_pct_kept:
  assumes "2 \<le> length t" "snd (hd t) \<noteq> 0"
  shows "map_of (fst acc) ''change_pct'' = Some (Some ((snd (last t) - snd (hd t)) / snd (hd t) * 100)) \<Longrightarrow>
         map_of (fst (fold (metric_step (Some t) vals) ms acc)) ''change_pct''
           = Some (Some ((snd (last t) - snd (hd t)) / snd (hd t) * 100))"
proof (induction ms arbitrary: acc)
  case Nil
  then show ?case by simp
next
  case (Cons m ms)
  from step_change_pct_kept[OF assms Cons.prems]
  show ?case by (simp add: Cons.IH)
qed

lemma fold_change_pct_present:
  assumes "2 \<le> length t" "snd (hd t) \<noteq> 0"
  shows "CHANGE_M \<in> set ms \<Longrightarrow>
         map_of (fst (fold (metric_step (Some t) vals) ms acc)) ''change_pct''
           = Some (Some ((snd (last t) - snd (hd t)) / snd (hd t) * 100))"
proof (induction ms arbitrary: acc)
  case Nil
  then show ?case by simp
next
  case (Cons m ms)
  show ?case
  proof (cases "m = CHANGE_M")
    case True
    then show ?thesis
      using fold_change_pct_kept[OF assms step_change_pct_set[OF assms]] by simp
  next
    case False
    with Cons.prems have "CHANGE_M \<in> set ms" by auto
    then show ?thesis by (simp add: Cons.IH)
  qed
qed

lemma step_change_pct_absent:
  assumes "case ts of None \<Rightarrow> True | Some t \<Rightarrow> length t < 2 \<or> snd (hd t) = 0"
      and "''change_pct'' \<notin> fst ` set (fst acc)"
  shows "''change_pct'' \<notin> fst ` set (fst (metric_step ts vals m acc))"
proof -
  have "snd (metric_value ts vals (Metric_value m) (fst acc)) = fst acc"
  proof (cases "m = CHANGE_M")
    case False
    then show ?thesis by (rule metric_value_other)
  next
    case True
    then show ?thesis using assms(1)
      by (auto simp: metric_value_def Let_def split: option.splits)
  qed
  then show ?thesis
    using assms(2) Metric_value_not_pct[of m]
    by (auto simp: metric_step_unfold keys_dict_set split: option.splits)
qed

lemma fold_change_pct_absent:
  assumes "case ts of None \<Rightarrow> True | Some t \<Rightarrow> length t < 2 \<or> snd (hd t) = 0"
  shows "''change_pct'' \<notin> fst ` set (fst acc) \<Longrightarrow>
         ''change_pct'' \<notin> fst ` set (fst (fold (metric_step ts vals) ms acc))"
proof (induction ms arbitrary: acc)
  case Nil
  then show ?case by simp
next
  case (Cons m ms)
  from step_change_pct_absent[OF assms Cons.prems]
  show ?case by (simp add: Cons.IH)
qed

lemma step_change_kept:
  assumes "2 \<le> length t"
      and "map_of (fst acc) ''change'' = Some (Some (snd (last t) - snd (hd t)))"
  shows "map_of (fst (metric_step (Some t) vals m acc)) ''change'' = Some (Some (snd (last t) - snd (hd t)))"
proof (cases "m = CHANGE_M")
  case True
  then show ?thesis
    using assms(1)
    by (cases "snd (hd t) = 0")
       (simp_all add: metric_step_unfold metric_value_change_pct metric_value_change_zero map_of_dict_set)
next
  case False
  then have "Metric_value m \<noteq> ''change''" by (simp add: Metric_value_change)
  with False show ?thesis
    using assms(2)
    by (auto simp: metric_step_unfold metric_value_other map_of_dict_set split: option.splits)
qed

lemma step_change_set:
  assumes "2 \<le> length t"
  shows "map_of (fst (metric_step (Some t) vals CHANGE_M acc)) ''change'' = Some (Some (snd (last t) - snd (hd t)))"
  using assms
  by (cases "snd (hd t) = 0")
     (simp_all add: metric_step_unfold metric_value_change_pct metric_value_change_zero map_of_dict_set)

lemma fold_change_kept:
  assumes "2 \<le> length t"
  shows "map_of (fst acc) ''change'' = Some (Some (snd (last t) - snd (hd t))) \<Longrightarrow>
         map_of (fst (fold (metric_step (Some t) vals) ms acc)) ''change'' = Some (Some (snd (last t) - snd (hd t)))"
proof (induction ms arbitrary: acc)
  case Nil
  then show ?case by simp
next
  case (Cons m ms)
  from step_change_kept[OF assms Cons.prems]
  show ?case by (simp add: Cons.IH)
qed

lemma fold_change_present:
  assumes "2 \<le> length t"
  shows "CHANGE_M \<in> set ms \<Longrightarrow>
         map_of (fst (fold (metric_step (Some t) vals) ms acc)) ''change'' = Some (Some (snd (last t) - snd (hd t)))"
proof (induction ms arbitrary: acc)
  case Nil
  then show ?case by simp
next
  case (Cons m ms)
  show ?case
  proof (cases "m = CHANGE_M")
    case True
    then show ?thesis
      using fold_change_kept[OF assms step_change_set[OF assms]] by simp
  next
    case False
    with Cons.prems have "CHANGE_M \<in> set ms" by auto
    then show ?thesis by (simp add: Cons.IH)
  qed
qed

subsection \<open>When every metric is computable\<close>

lemma series_computable:
  assumes "vals \<noteq> []"
  shows "\<exists>x. series_sum vals = Some x" "\<exists>x. series_mean vals = Some x"
    "\<exists>x. series_median vals = Some x" "\<exists>x. series_min vals = Some x"
    "\<exists>x. series_max vals = Some x" "\<exists>x. series_var vals = Some x"
    "\<exists>x. series_std vals = Some x" "\<exists>x. series_range vals = Some x"
proof -
  obtain x rest where v: "vals = x # rest" using assms by (cases vals) auto
  show "\<exists>x. series_sum vals = Some x" by (simp add: series_sum_def)
  show m: "\<exists>x. series_mean vals = Some x" using assms by (simp add: series_mean_def)
  have "series_median vals =
      Some (if odd (length vals) then sort vals ! (length vals div 2)
            else (sort vals ! (length vals div 2 - 1) + sort vals ! (length vals div 2)) / 2)"
    using assms by (simp add: series_median_def Let_def)
  then show "\<exists>x. series_median vals = Some x" by blast
  show "\<exists>x. series_min vals = Some x" by (simp add: series_min_def v)
  show "\<exists>x. series_max vals = Some x" by (simp add: series_max_def v)
  show va: "\<exists>x. series_var vals = Some x" using m by (auto simp: series_var_def)
  show "\<exists>x. series_std vals = Some x" using va by (auto simp: series_std_def)
  show "\<exists>x. series_range vals = Some x" by (simp add: series_range_def series_max_def series_min_def v)
qed

lemma metric_value_computable:
  assumes "vals \<noteq> []" "2 \<le> length t"
  shows "\<exists>x. fst (metric_value (Some t) vals (Metric_value m) r) = Some x"
  using assms(2) series_computable[OF assms(1)]
  by (cases m) (simp_all add: metric_value_def Let_def)

lemma step_all_computed:
  assumes "vals \<noteq> []" "2 \<le> length t"
      and "\<forall>kv \<in> set (fst acc). snd kv \<noteq> None" "snd acc = []"
  shows "(\<forall>kv \<in> set (fst (metric_step (Some t) vals m acc)). snd kv \<noteq> None)
         \<and> snd (metric_step (Some t) vals m acc) = []"
proof -
  obtain x where x: "fst (metric_value (Some t) vals (Metric_value m) (fst acc)) = Some x"
    using metric_value_computable[OF assms(1,2)] by blast
  have r: "\<forall>kv \<in> set (snd (metric_value (Some t) vals (Metric_value m) (fst acc))). snd kv \<noteq> None"
  proof (cases "m = CHANGE_M")
    case False
    then show ?thesis using assms(3) by (simp add: metric_value_other)
  next
    case True
    show ?thesis
    proof (cases "snd (hd t) = 0")
      case True
      with \<open>m = CHANGE_M\<close> assms(2,3) show ?thesis by (simp add: metric_value_change_zero)
    next
      case False
      with \<open>m = CHANGE_M\<close> assms(2,3) set_dict_set_subset show ?thesis
        by (fastforce simp: metric_value_change_pct)
    qed
  qed
  have "\<forall>kv \<in> set (dict_set (Metric_value m) (Some x) (snd (metric_value (Some t) vals (Metric_value m) (fst acc)))).
          snd kv \<noteq> None"
    using r set_dict_set_subset by fastforce
  then show ?thesis using x assms(4) by (simp add: metric_step_unfold)
qed

lemma fold_all_computed:
  assumes "vals \<noteq> []" "2 \<le> length t"
  shows "(\<forall>kv \<in> set (fst acc). snd kv \<noteq> None) \<Longrightarrow> snd acc = [] \<Longrightarrow>
         (\<forall>kv \<in> set (fst (fold (metric_step (Some t) vals) ms acc)). snd kv \<noteq> None)
         \<and> snd (fold (metric_step (Some t) vals) ms acc) = []"
proof (induction ms arbitrary: acc)
  case Nil
  then show ?case by simp
next
  case (Cons m ms)
  from step_all_computed[OF assms Cons.prems]
  have a: "\<forall>kv \<in> set (fst (metric_step (Some t) vals m acc)). snd kv \<noteq> None"
    and b: "snd (metric_step (Some t) vals m acc) = []" by blast+
  from Cons.IH[OF a b] show ?case by simp
qed

lemma step_None_set:
  assumes "fst (metric_value ts vals (Metric_value m0) []) = None"
  shows "(Metric_value m0, None) \<in> set (fst (metric_step ts vals m0 acc))
         \<and> Metric_value m0 \<in> set (snd (metric_step ts vals m0 acc))"
proof -
  have "fst (metric_value ts vals (Metric_value m0) (fst acc)) = None"
    using assms metric_value_fst by metis
  then show ?thesis by (simp add: metric_step_unfold dict_set_mem_self)
qed

subsection \<open>The general form: every requested metric is in the results\<close>

lemma step_entry_kept:
  assumes "(Metric_value m0, fst (metric_value ts vals (Metric_value m0) [])) \<in> set (fst acc)"
  shows "(Metric_value m0, fst (metric_value ts vals (Metric_value m0) [])) \<in> set (fst (metric_step ts vals m acc))"
proof (cases "m = m0")
  case True
  have "fst (metric_value ts vals (Metric_value m0) (fst acc)) = fst (metric_value ts vals (Metric_value m0) [])"
    by (rule metric_value_fst)
  then show ?thesis using True
    by (auto simp: metric_step_unfold dict_set_mem_self split: option.splits)
next
  case False
  then have ne: "Metric_value m \<noteq> Metric_value m0" by (simp add: Metric_value_inj)
  have "(Metric_value m0, fst (metric_value ts vals (Metric_value m0) []))
          \<in> set (snd (metric_value ts vals (Metric_value m) (fst acc)))"
  proof (cases "m = CHANGE_M")
    case False
    then show ?thesis using assms by (simp add: metric_value_other)
  next
    case True
    have "(Metric_value m0, fst (metric_value ts vals (Metric_value m0) []))
            \<in> set (dict_set ''change_pct'' p (fst acc))" for p
      using assms Metric_value_not_pct[of m0] by (metis dict_set_mem_other)
    then show ?thesis using True assms
      by (auto simp: metric_value_def Let_def split: option.splits)
  qed
  then show ?thesis using ne
    by (auto simp: metric_step_unfold dict_set_mem_other split: option.splits)
qed

lemma step_entry_set:
  "(Metric_value m0, fst (metric_value ts vals (Metric_value m0) [])) \<in> set (fst (metric_step ts vals m0 acc))"
proof -
  have "fst (metric_value ts vals (Metric_value m0) (fst acc)) = fst (metric_value ts vals (Metric_value m0) [])"
    by (rule metric_value_fst)
  then show ?thesis
    by (auto simp: metric_step_unfold dict_set_mem_self split: option.splits)
qed

lemma fold_entry_kept:
  "(Metric_value m0, fst (metric_value ts vals (Metric_value m0) [])) \<in> set (fst acc) \<Longrightarrow>
   (Metric_value m0, fst (metric_value ts vals (Metric_value m0) [])) \<in> set (fst (fold (metric_step ts vals) ms acc))"
proof (induction ms arbitrary: acc)
  case Nil
  then show ?case by simp
next
  case (Cons m ms)
  from step_entry_kept[OF Cons.prems]
  show ?case by (simp add: Cons.IH)
qed

lemma fold_entry_present:
  "m0 \<in> set ms \<Longrightarrow>
   (Metric_value m0, fst (metric_value ts vals (Metric_value m0) [])) \<in> set (fst (fold (metric_step ts vals) ms acc))"
proof (induction ms arbitrary: acc)
  case Nil
  then show ?case by simp
next
  case (Cons m ms)
  show ?case
  proof (cases "m = m0")
    case True
    then show ?thesis using fold_entry_kept[OF step_entry_set] by simp
  next
    case False
    with Cons.prems have "m0 \<in> set ms" by auto
    then show ?thesis by (simp add: Cons.IH)
  qed
qed

lemma step_incomputable_mono: "set (snd acc) \<subseteq> set (snd (metric_step ts vals m acc))"
  by (auto simp: metric_step_unfold split: option.splits)

lemma fold_incomputable_mono: "set (snd acc) \<subseteq> set (snd (fold (metric_step ts vals) ms acc))"
proof (induction ms arbitrary: acc)
  case Nil
  then show ?case by simp
next
  case (Cons m ms)
  have "set (snd acc) \<subseteq> set (snd (metric_step ts vals m acc))" by (rule step_incomputable_mono)
  also have "\<dots> \<subseteq> set (snd (fold (metric_step ts vals) ms (metric_step ts vals m acc)))" by (rule Cons.IH)
  finally show ?case by simp
qed

lemma fold_incomputable_present:
  assumes "fst (metric_value ts vals (Metric_value m0) []) = None"
  shows "m0 \<in> set ms \<Longrightarrow> Metric_value m0 \<in> set (snd (fold (metric_step ts vals) ms acc))"
proof (induction ms arbitrary: acc)
  case Nil
  then show ?case by simp
next
  case (Cons m ms)
  show ?case
  proof (cases "m = m0")
    case True
    have "Metric_value m0 \<in> set (snd (metric_step ts vals m0 acc))"
      using step_None_set[OF assms] by blast
    then show ?thesis using True fold_incomputable_mono by fastforce
  next
    case False
    with Cons.prems have "m0 \<in> set ms" by auto
    then show ?thesis by (simp add: Cons.IH)
  qed
qed

subsection \<open>The series and the values\<close>

lemma year_series_values:
  assumes "year_series col result_df \<noteq> []"
  shows "List.map_filter (\<lambda>r. row_cells r col) result_df \<noteq> []"
proof -
  let ?s = "List.map_filter (\<lambda>r. case (row_year r, row_cells r col) of
                    (Some y, Some v) \<Rightarrow> Some (y, v) | _ \<Rightarrow> None) result_df"
  have "?s \<noteq> []" using assms by (auto simp: year_series_def Let_def)
  then obtain r where "r \<in> set result_df" "row_cells r col \<noteq> None"
    by (auto simp: List.map_filter_def filter_empty_conv split: option.splits)
  then show ?thesis by (auto simp: List.map_filter_def filter_empty_conv)
qed

subsection \<open>A resolved column is a non-empty column of the schema\<close>

lemma lower_Nil: "lower [] = []"
  by (simp add: lower_def)

lemma find_candidates_nonempty:
  "find_candidates cands columns = Some col \<Longrightarrow> [] \<notin> set cands \<Longrightarrow> col \<in> set columns \<and> col \<noteq> []"
proof -
  assume a: "find_candidates cands columns = Some col" and b: "[] \<notin> set cands"
  from find_candidates_Some[OF a] obtain c where c: "col \<in> set columns" "c \<in> set cands" "lower col = lower c"
    by blast
  with b have "lower c \<noteq> []" by (auto simp: lower_def)
  with c show ?thesis by (auto simp: lower_def)
qed

lemma sector_branch_nonempty:
  assumes "sector_branch (lower (Gas_value g)) sec columns = Some col"
  shows "col \<in> set columns \<and> col \<noteq> []"
proof -
  have gne: "lower (Gas_value g) \<noteq> []" by (cases g) (simp_all add: lower_def)
  have c0: "\<not> contains (lower (Gas_value g)) []" using gne by simp
  consider (total) "sec = Some TOTAL \<or> sec = None" | (cement) "sec = Some CEMENT"
    | (transport) "sec = Some TRANSPORT" | (energy) "sec = Some ENERGY" | (agri) "sec = Some AGRICULTURE"
    by (cases sec) (auto, metis Sector.exhaust)
  then show ?thesis
  proof cases
    case total
    show ?thesis
    proof (cases "find (\<lambda>col. lower col = lower (Gas_value g)) columns")
      case (Some c)
      with assms total have "c = col" by (auto simp: sector_branch_def)
      with Some gne show ?thesis by (auto dest: find_Some_mem simp: lower_def)
    next
      case None
      with assms total have
        "find_candidates (map (\<lambda>suffix. lower (Gas_value g) @ suffix) ['''', ''_emissions'', ''_per_capita'']) columns = Some col"
        by (auto simp: sector_branch_def)
      moreover have "[] \<notin> set (map (\<lambda>suffix. lower (Gas_value g) @ suffix) ['''', ''_emissions'', ''_per_capita''])"
        using gne by simp
      ultimately show ?thesis by (rule find_candidates_nonempty)
    qed
  next
    case cement
    show ?thesis
    proof (cases "find_candidates [''cement_co2'', ''cement_co2_per_capita''] columns")
      case (Some c)
      with assms cement have "find_candidates [''cement_co2'', ''cement_co2_per_capita''] columns = Some col"
        by (simp add: sector_branch_def)
      then show ?thesis by (rule find_candidates_nonempty) simp
    next
      case None
      with assms cement have "find (\<lambda>col. contains ''cement'' (lower col) \<and> contains (lower (Gas_value g)) (lower col)) columns = Some col"
        by (simp add: sector_branch_def)
      from find_Some_mem[OF this] show ?thesis by (auto simp: lower_def)
    qed
  next
    case transport
    with assms have "find (\<lambda>col. contains ''transport'' (lower col) \<and> contains (lower (Gas_value g)) (lower col)) columns = Some col"
      by (simp add: sector_branch_def)
    from find_Some_mem[OF this] show ?thesis by (auto simp: lower_def)
  next
    case energy
    with assms have "find (\<lambda>col. contains ''energy'' (lower col) \<and> contains (lower (Gas_value g)) (lower col)) columns = Some col"
      by (simp add: sector_branch_def)
    from find_Some_mem[OF this] show ?thesis by (auto simp: lower_def)
  next
    case agri
    with assms have "find (\<lambda>col. (contains ''agriculture'' (lower col) \<or> contains ''agricultural'' (lower col))
                     \<and> contains (lower (Gas_value g)) (lower col)) columns = Some col"
      by (simp add: sector_branch_def)
    from find_Some_mem[OF this] show ?thesis by (auto simp: lower_def)
  qed
qed

lemma fallback_match_nonempty: "fallback_match (lower (Gas_value g)) col \<Longrightarrow> col \<noteq> []"
proof
  assume f: "fallback_match (lower (Gas_value g)) col" and e: "col = []"
  from fallback_match_contains[OF f] e have "contains (lower (Gas_value g)) []" by (simp add: lower_def)
  then show False by (cases g) (simp_all add: lower_def)
qed

lemma resolved_column_nonempty:
  assumes "get_column_name columns g sec = Some col"
  shows "col \<in> set columns \<and> col \<noteq> []"
proof -
  from assms obtain gg where g: "g = Some gg" by (cases g) (auto simp: get_column_name_def)
  show ?thesis
  proof (cases "sector_branch (lower (Gas_value gg)) sec columns")
    case (Some c)
    with assms g have "c = col" by (simp add: get_column_name_def)
    with Some sector_branch_nonempty show ?thesis by blast
  next
    case None
    with assms g have "find (fallback_match (lower (Gas_value gg))) columns = Some col"
      by (simp add: get_column_name_def split: if_splits)
    from find_Some_mem[OF this] fallback_match_nonempty show ?thesis by blast
  qed
qed

lemma metric_value_computable_other:
  assumes "vals \<noteq> []" "m \<noteq> CHANGE_M" "m \<noteq> TREND_M"
  shows "\<exists>x. fst (metric_value ts vals (Metric_value m) r) = Some x"
  using assms(2,3) series_computable[OF assms(1)]
  by (cases m) (simp_all add: metric_value_def Let_def)

lemma aggregate_all_computed:
  assumes col: "get_column_name (df_columns df) g s = Some col"
      and yr: "''year'' \<in> set (df_columns df)"
      and len: "2 \<le> length (year_series col result_df)"
  shows "\<exists>v. aggregate df g s to_compute result_df af =
      Inr \<lparr>value = v,
           values = Some (map (\<lambda>kv. (fst kv, the (snd kv)))
                      (fst (compute_metrics (Some (year_series col result_df))
                             (List.map_filter (\<lambda>r. row_cells r col) result_df) to_compute))),
           unit_str = Some (get_unit col), applied_filters = af,
           record_count = length (List.map_filter (\<lambda>r. row_cells r col) result_df),
           incomputable_metrics = None, error = None\<rparr>"
proof -
  let ?vals = "List.map_filter (\<lambda>r. row_cells r col) result_df"
  let ?ts = "year_series col result_df"
  from resolved_column_nonempty[OF col] have c: "col \<noteq> []" "col \<in> set (df_columns df)" by simp_all
  from len have "?ts \<noteq> []" by auto
  then have v: "?vals \<noteq> []" by (rule year_series_values)
  have all: "(\<forall>kv \<in> set (fst (compute_metrics (Some ?ts) ?vals to_compute)). snd kv \<noteq> None)
             \<and> snd (compute_metrics (Some ?ts) ?vals to_compute) = []"
    unfolding compute_metrics_def by (rule fold_all_computed[OF v len]) simp_all
  then have vv: "validate_values (fst (compute_metrics (Some ?ts) ?vals to_compute))
              = Inr (map (\<lambda>kv. (fst kv, the (snd kv))) (fst (compute_metrics (Some ?ts) ?vals to_compute)))"
    using validate_values_all_Some by blast
  obtain results incomputable where ri: "compute_metrics (Some ?ts) ?vals to_compute = (results, incomputable)"
    by (cases "compute_metrics (Some ?ts) ?vals to_compute")
  with all have inc: "incomputable = []" by simp
  show ?thesis
    using c v yr vv ri inc col by (simp add: aggregate_def Let_def)
qed

section \<open>Facts about the extractor\<close>

lemmas rx_eval = year_refs_def bare_year_def match_range_def match_last_n_def match_year_def lit_def spaces1_def
  digits4_def digits1_def is_space_def is_digit_def is_word_char_def int_of_digits_def digit_val_def
  truthy_int_def Let_def

lemma enum_field_Inl: "enum_field f v = Inl e \<Longrightarrow> e = ValidationError"
  by (auto simp: enum_field_def split: option.splits)

lemma enum_list_Inl: "enum_list f l = Inl e \<Longrightarrow> e = ValidationError"
  by (induction l arbitrary: e) (auto split: option.splits sum.splits)

lemma enum_list_field_Inl: "enum_list_field f v = Inl e \<Longrightarrow> e = ValidationError"
  by (auto simp: enum_list_field_def bind_exn_def split: option.splits sum.splits dest: enum_list_Inl)

lemma year_filter_field_Inl: "year_filter_field v = Inl e \<Longrightarrow> e = ValidationError"
  by (auto simp: year_filter_field_def split: year_entry.splits if_splits)

lemma QueryIntent_of_dict_Inl: "QueryIntent_of_dict d = Inl e \<Longrightarrow> e = ValidationError"
  by (auto simp: QueryIntent_of_dict_def bind_exn_def split: sum.splits
           dest: enum_field_Inl enum_list_field_Inl year_filter_field_Inl)

lemma QueryIntent_of_dict_invalid_year:
  assumes "d_year_filter d = YearDict yf" "\<not> valid_YearFilter yf"
  shows "QueryIntent_of_dict d = Inl ValidationError"
proof (cases "QueryIntent_of_dict d")
  case (Inl e)
  then show ?thesis using QueryIntent_of_dict_Inl by blast
next
  case (Inr q)
  then show ?thesis using assms
    by (auto simp: QueryIntent_of_dict_def bind_exn_def year_filter_field_def split: sum.splits)
qed

lemma offline_dict_year_filter:
  "d_year_filter (offline_dict md user_query) =
     (case year_refs (case md_year_range md of None \<Rightarrow> None | Some (mn, mx) \<Rightarrow> Some mx) (lower user_query) of
        None \<Rightarrow> NoKey
      | Some found \<Rightarrow> YearDict found)"
  by (simp add: offline_dict_def Let_def)

















lemma extract_intent_llm_error:
  assumes "llm_body json_loads md user_query llm_response = Inl e"
  shows "needs_clarification (extract_intent_llm json_loads md user_query llm_response)
       \<and> (\<exists>q. clarification_question (extract_intent_llm json_loads md user_query llm_response) = Some q \<and> q \<noteq> [])"
  using assms by (simp add: extract_intent_llm_def)




section \<open>Claims about the column resolver and the unit\<close>

text \<open>
  C4. For every list of column names, resolving gas \<open>co2\<close> with sector \<open>total\<close> never
  returns a column whose name (as written, or lower-cased) contains \<open>cement\<close>, \<open>coal\<close>
  or \<open>oil\<close>, whatever other columns the schema holds; and when no column matches any of the
  rules for a total lookup (exact gas name, gas name with one of the suffixes, or the fallback
  test), the result is \<open>None\<close>.
\<close>

theorem resolve_co2_total:
  "(get_column_name columns (Some CO2) (Some TOTAL) = Some col \<longrightarrow>
      col \<in> set columns
      \<and> \<not> contains ''cement'' (lower col) \<and> \<not> contains ''coal'' (lower col) \<and> \<not> contains ''oil'' (lower col)
      \<and> \<not> contains ''cement'' col \<and> \<not> contains ''coal'' col \<and> \<not> contains ''oil'' col)
   \<and> ((\<forall>c \<in> set columns. lower c \<notin> {''co2'', ''co2_emissions'', ''co2_per_capita''} \<and> \<not> fallback_match ''co2'' c)
        \<longrightarrow> get_column_name columns (Some CO2) (Some TOTAL) = None)"
proof (intro conjI impI)
  assume r: "get_column_name columns (Some CO2) (Some TOTAL) = Some col"
  have low: "col \<in> set columns \<and> \<not> contains ''cement'' (lower col) \<and> \<not> contains ''coal'' (lower col) \<and> \<not> contains ''oil'' (lower col)"
  proof (cases "sector_branch ''co2'' (Some TOTAL) columns")
    case (Some c)
    with r have "c = col" by (simp add: get_column_name_def lower_eval)
    with Some total_branch_lower have "col \<in> set columns \<and> lower col \<in> {''co2'', ''co2_emissions'', ''co2_per_capita''}" by simp
    then show ?thesis by auto
  next
    case None
    with r have "find (fallback_match ''co2'') columns = Some col" by (simp add: get_column_name_def lower_eval)
    then have "col \<in> set columns \<and> fallback_match ''co2'' col" by (rule find_Some_mem)
    then show ?thesis using fallback_match_excludes by blast
  qed
  then show "col \<in> set columns" "\<not> contains ''cement'' (lower col)" "\<not> contains ''coal'' (lower col)" "\<not> contains ''oil'' (lower col)" by simp_all
  from low show "\<not> contains ''cement'' col" using not_contains_lower[OF lower_cement] by blast
  from low show "\<not> contains ''coal'' col" using not_contains_lower[OF lower_coal] by blast
  from low show "\<not> contains ''oil'' col" using not_contains_lower[OF lower_oil] by blast
next
  assume n: "\<forall>c \<in> set columns. lower c \<notin> {''co2'', ''co2_emissions'', ''co2_per_capita''} \<and> \<not> fallback_match ''co2'' c"
  then have a: "find (\<lambda>col. lower col = ''co2'') columns = None" by (auto simp: find_None_iff)
  from n have b: "find_candidates [''co2'', ''co2_emissions'', ''co2_per_capita''] columns = None"
    unfolding find_candidates_None by (auto simp: lower_eval)
  from n have c: "find (fallback_match ''co2'') columns = None" by (auto simp: find_None_iff)
  show "get_column_name columns (Some CO2) (Some TOTAL) = None"
    using a b c by (simp add: get_column_name_def sector_branch_def lower_eval)
qed


theorem resolve_co2_total_witness:
  "get_column_name [''country'', ''year'', ''cement_co2'', ''coal_co2'', ''oil_co2'', ''co2''] (Some CO2) (Some TOTAL) = Some ''co2''
   \<and> \<not> contains ''cement'' ''co2'' \<and> \<not> contains ''coal'' ''co2'' \<and> \<not> contains ''oil'' ''co2''
   \<and> get_column_name [''country'', ''year'', ''cement_co2'', ''coal_co2'', ''oil_co2''] (Some CO2) (Some TOTAL) = None"
proof -
  have r: "get_column_name [''country'', ''year'', ''cement_co2'', ''coal_co2'', ''oil_co2'', ''co2''] (Some CO2) (Some TOTAL) = Some ''co2''"
    by (simp add: get_column_name_def sector_branch_def lower_eval)
  have n: "\<forall>c \<in> set [''country'', ''year'', ''cement_co2'', ''coal_co2'', ''oil_co2''].
         lower c \<notin> {''co2'', ''co2_emissions'', ''co2_per_capita''} \<and> \<not> fallback_match ''co2'' c"
    by (simp add: lower_eval fallback_match_def startswith_def endswith_def)
  from r n
    resolve_co2_total [of "[''country'', ''year'', ''cement_co2'', ''coal_co2'', ''oil_co2'', ''co2'']" "''co2''"]
    resolve_co2_total [of "[''country'', ''year'', ''cement_co2'', ''coal_co2'', ''oil_co2'']" "''co2''"]
  show ?thesis by blast
qed

text \<open>
  C7 (as stated): the unit is \<open>million tonnes\<close> whenever the column name holds the requested
  gas token, for each of co2, methane and n2o. It fails for methane: the column \<open>methane\<close>
  resolved for gas methane holds the gas token and no \<open>per_capita\<close>, and its unit is
  \<open>tonnes\<close>.
\<close>

theorem get_unit_methane_counterexample:
  "get_column_name [''country'', ''methane''] (Some METHANE) (Some TOTAL) = Some ''methane''
   \<and> contains (Gas_value METHANE) (lower ''methane'')
   \<and> \<not> contains ''per_capita'' (lower ''methane'')
   \<and> get_unit ''methane'' = ''tonnes''
   \<and> get_unit ''methane'' \<noteq> ''million tonnes''"
  by (simp add: get_column_name_def sector_branch_def get_unit_def lower_eval)

text \<open>
  C7 (amended). For every column that the resolver returns, the unit follows from the column
  name alone and from the literal token \<open>co2\<close>, not from the requested gas:
  \<open>tonnes per capita\<close> when the lower-cased name contains \<open>per_capita\<close>; otherwise
  \<open>million tonnes\<close> when it contains \<open>co2\<close>; otherwise \<open>tonnes\<close>. So a column
  resolved for gas co2 gets \<open>tonnes per capita\<close> or \<open>million tonnes\<close>, and a column
  resolved for methane or n2o with neither \<open>per_capita\<close> nor \<open>co2\<close> in its name holds
  the requested gas token and still gets \<open>tonnes\<close>.
\<close>

theorem unit_of_resolved_column:
  assumes "get_column_name columns (Some g) sec = Some col"
  shows "(contains ''per_capita'' (lower col) \<longrightarrow> get_unit col = ''tonnes per capita'')
       \<and> (\<not> contains ''per_capita'' (lower col) \<and> contains ''co2'' (lower col)
            \<longrightarrow> get_unit col = ''million tonnes'')
       \<and> (\<not> contains ''per_capita'' (lower col) \<and> \<not> contains ''co2'' (lower col)
            \<longrightarrow> get_unit col = ''tonnes'' \<and> g \<noteq> CO2 \<and> contains (Gas_value g) (lower col))
       \<and> (g = CO2 \<longrightarrow> get_unit col =
             (if contains ''per_capita'' (lower col) then ''tonnes per capita'' else ''million tonnes''))"
proof -
  have t: "contains (Gas_value g) (lower col) \<or> contains ''co2'' (lower col)"
    using assms by (rule resolved_contains_token)
  have c: "g = CO2 \<longrightarrow> contains ''co2'' (lower col)"
    using assms resolved_co2_contains by blast
  have u1: "contains ''per_capita'' (lower col) \<longrightarrow> get_unit col = ''tonnes per capita''"
    by (simp add: get_unit_def)
  have u2: "\<not> contains ''per_capita'' (lower col) \<and> contains ''co2'' (lower col)
            \<longrightarrow> get_unit col = ''million tonnes''"
    by (simp add: get_unit_def)
  have u3: "\<not> contains ''per_capita'' (lower col) \<and> \<not> contains ''co2'' (lower col)
            \<longrightarrow> get_unit col = ''tonnes''"
    by (simp add: get_unit_def)
  have u4: "g = CO2 \<longrightarrow> get_unit col =
             (if contains ''per_capita'' (lower col) then ''tonnes per capita'' else ''million tonnes'')"
    using c by (simp add: get_unit_def)
  from t c u1 u2 u3 u4 show ?thesis by blast
qed

theorem unit_of_resolved_column_witness:
  "get_column_name [''country'', ''methane'', ''methane_per_capita''] (Some METHANE) (Some TOTAL) = Some ''methane''
   \<and> contains (Gas_value METHANE) (lower ''methane'')
   \<and> get_unit ''methane'' = ''tonnes''
   \<and> get_column_name [''country'', ''methane_per_capita''] (Some METHANE) (Some TOTAL) = Some ''methane_per_capita''
   \<and> get_unit ''methane_per_capita'' = ''tonnes per capita''
   \<and> get_column_name [''country'', ''cement_co2'', ''co2_per_capita''] (Some CO2) (Some CEMENT) = Some ''cement_co2''
   \<and> get_unit ''cement_co2'' = ''million tonnes''"
proof -
  have r1: "get_column_name [''country'', ''methane'', ''methane_per_capita''] (Some METHANE) (Some TOTAL) = Some ''methane''"
    by (simp add: get_column_name_def sector_branch_def lower_eval)
  have r2: "get_column_name [''country'', ''methane_per_capita''] (Some METHANE) (Some TOTAL) = Some ''methane_per_capita''"
    by (simp add: get_column_name_def sector_branch_def lower_eval)
  have r3: "get_column_name [''country'', ''cement_co2'', ''co2_per_capita''] (Some CO2) (Some CEMENT) = Some ''cement_co2''"
    by (simp add: get_column_name_def sector_branch_def lower_eval)
  have p1: "\<not> contains ''per_capita'' (lower ''methane'') \<and> \<not> contains ''co2'' (lower ''methane'')"
    by (simp add: lower_eval)
  have p2: "contains ''per_capita'' (lower ''methane_per_capita'')" by (simp add: lower_eval)
  have p3: "\<not> contains ''per_capita'' (lower ''cement_co2'') \<and> contains ''co2'' (lower ''cement_co2'')"
    by (simp add: lower_eval)
  from unit_of_resolved_column [OF r1] p1
  have u1: "get_unit ''methane'' = ''tonnes'' \<and> contains (Gas_value METHANE) (lower ''methane'')" by blast
  from unit_of_resolved_column [OF r2] p2
  have u2: "get_unit ''methane_per_capita'' = ''tonnes per capita''" by blast
  from unit_of_resolved_column [OF r3] p3
  have u3: "get_unit ''cement_co2'' = ''million tonnes''" by blast
  from r1 r2 r3 u1 u2 u3 show ?thesis by blast
qed

section \<open>Claims about execution\<close>

text \<open>
  C3. When the year filter of an intent has \<open>year\<close> set (to a value the schema accepts),
  execution filters the rows by equality on that year and ignores \<open>year_min\<close> and
  \<open>year_max\<close>: the filtered rows, \<open>applied_filters\<close> and the whole result are the same
  whatever \<open>year_min\<close> and \<open>year_max\<close> hold, and the rows kept are those whose year equals
  \<open>year\<close>, recorded under the key \<open>year\<close>.
\<close>

theorem year_takes_precedence:
  assumes "validate_year (Some y)"
  shows "apply_filters df (intent\<lparr>year_filter := Some \<lparr>year = Some y, year_min = lo, year_max = hi\<rparr>\<rparr>)
           = apply_filters df (intent\<lparr>year_filter := Some \<lparr>year = Some y, year_min = None, year_max = None\<rparr>\<rparr>)
       \<and> execute df (intent\<lparr>year_filter := Some \<lparr>year = Some y, year_min = lo, year_max = hi\<rparr>\<rparr>)
           = execute df (intent\<lparr>year_filter := Some \<lparr>year = Some y, year_min = None, year_max = None\<rparr>\<rparr>)
       \<and> (case country_step df intent of
             Inl e \<Rightarrow> apply_filters df (intent\<lparr>year_filter := Some \<lparr>year = Some y, year_min = lo, year_max = hi\<rparr>\<rparr>) = Inl e
           | Inr (result_df, af) \<Rightarrow>
               apply_filters df (intent\<lparr>year_filter := Some \<lparr>year = Some y, year_min = lo, year_max = hi\<rparr>\<rparr>) =
                 (if ''year'' \<notin> set (df_columns df) then Inl (KeyError ''year'', af)
                  else Inr (filter (\<lambda>r. row_year r = Some y) result_df, dict_set ''year'' (FInt y) af)))"
proof -
  let ?a = "intent\<lparr>year_filter := Some \<lparr>year = Some y, year_min = lo, year_max = hi\<rparr>\<rparr>"
  let ?b = "intent\<lparr>year_filter := Some \<lparr>year = Some y, year_min = None, year_max = None\<rparr>\<rparr>"
  have cs: "country_step df ?a = country_step df intent" "country_step df ?b = country_step df intent"
    by (simp_all add: country_step_def)
  have ys: "year_step df ?a rs af = year_step df ?b rs af" for rs af
    using year_step_year[OF assms, of ?a _ df rs af] year_step_year[OF assms, of ?b _ df rs af] by simp
  have af: "apply_filters df ?a = apply_filters df ?b"
    by (auto simp: apply_filters_def cs ys split: sum.splits)
  have mt: "metrics_to_compute ?a = metrics_to_compute ?b" by (simp add: metrics_to_compute_def split: option.splits list.splits)
  have eb: "execute_body df ?a = execute_body df ?b"
    by (cases "apply_filters df ?b") (auto simp: execute_body_def af mt)
  have ex: "execute df ?a = execute df ?b"
    by (simp add: execute_def eb)
  have third: "(case country_step df intent of
             Inl e \<Rightarrow> apply_filters df ?a = Inl e
           | Inr (result_df, af) \<Rightarrow>
               apply_filters df ?a =
                 (if ''year'' \<notin> set (df_columns df) then Inl (KeyError ''year'', af)
                  else Inr (filter (\<lambda>r. row_year r = Some y) result_df, dict_set ''year'' (FInt y) af)))"
    using year_step_year[OF assms, of ?a _ df]
    by (auto simp: apply_filters_def cs split: sum.splits)
  from af ex third show ?thesis by blast
qed

theorem year_takes_precedence_witness:
  "validate_year (Some 2020)
   \<and> execute test_df (china_co2\<lparr>year_filter := Some \<lparr>year = Some 2020, year_min = Some 1990, year_max = Some 2000\<rparr>\<rparr>)
       = execute test_df (china_co2\<lparr>year_filter := Some \<lparr>year = Some 2020, year_min = None, year_max = None\<rparr>\<rparr>)"
  using year_takes_precedence [where y = 2020 and df = test_df and intent = china_co2 and lo = "Some 1990" and hi = "Some 2000"]
  by (simp add: validate_year_def)

text \<open>
  C1 (as stated): when the filters match no row, \<open>execute\<close> returns \<open>record_count = 0\<close>
  with the error unset, and the view reaches its no-rows fallback. It fails: for a country
  that the test data frame does not hold, \<open>execute\<close> returns the error
  \<open>No data available for the specified filters\<close> with \<open>values\<close> unset, and the view
  answers from its execution-error branch.
\<close>

theorem no_rows_counterexample:
  "apply_filters test_df (china_co2\<lparr>country := Some ''Atlantis'', metric := Some SUM_M\<rparr>)
      = Inr ([], [(''country'', FStr ''Atlantis'')])
   \<and> execute test_df (china_co2\<lparr>country := Some ''Atlantis'', metric := Some SUM_M\<rparr>)
      = \<lparr>value = None, values = None, unit_str = None,
         applied_filters = [(''country'', FStr ''Atlantis'')],
         record_count = 0, incomputable_metrics = None, error = Some NoData\<rparr>
   \<and> route (execute test_df (china_co2\<lparr>country := Some ''Atlantis'', metric := Some SUM_M\<rparr>)) False = ExecutionError
   \<and> post test_df None (china_co2\<lparr>country := Some ''Atlantis'', metric := Some SUM_M\<rparr>) = ExecutionError"
proof -
  let ?i = "china_co2\<lparr>country := Some ''Atlantis'', metric := Some SUM_M\<rparr>"
  have f: "apply_filters test_df ?i = Inr ([], [(''country'', FStr ''Atlantis'')])"
    by (simp add: exec_eval)
  have x: "execute test_df ?i = \<lparr>value = None, values = None, unit_str = None,
         applied_filters = [(''country'', FStr ''Atlantis'')],
         record_count = 0, incomputable_metrics = None, error = Some NoData\<rparr>"
    by (simp add: exec_eval)
  have r: "route (execute test_df ?i) False = ExecutionError"
    by (simp add: x route_def)
  have v: "validate_intent (Some ?i) = Success (Fields ?i)"
    by (simp add: validate_intent_def china_co2_def QueryIntent_default_def truthy_str_def)
  have p: "post test_df None ?i = ExecutionError"
    using r v by (simp add: post_def post_with_def merge_follow_up_def is_underspecified_def to_QueryIntent_def
        china_co2_def QueryIntent_default_def truthy_str_def Let_def)
  from f x r p show ?thesis by blast
qed

text \<open>
  C1 (amended). When the filters match no row, \<open>execute\<close> returns a result with
  \<open>record_count = 0\<close>, \<open>value\<close> and \<open>values\<close> unset, the applied filters, and the error
  set (\<open>No data available for the specified filters\<close>, or \<open>Column ... not found\<close> when no
  column resolves); the view then answers from its execution-error branch, whether or not the
  intent is of low confidence.
\<close>

theorem no_rows_is_execution_error:
  assumes "apply_filters df intent = Inr ([], af)"
  shows "record_count (execute df intent) = 0
       \<and> value (execute df intent) = None
       \<and> values (execute df intent) = None
       \<and> applied_filters (execute df intent) = af
       \<and> (error (execute df intent) = Some NoData \<or> (\<exists>c. error (execute df intent) = Some (ColumnNotFound c)))
       \<and> route (execute df intent) low_confidence_flag = ExecutionError"
proof -
  obtain e where
    a: "aggregate df (gas intent) (sector intent) (metrics_to_compute intent) [] af =
          Inr \<lparr>value = None, values = None, unit_str = None, applied_filters = af,
               record_count = 0, incomputable_metrics = None, error = Some e\<rparr>"
    and e: "e = NoData \<or> (\<exists>c. e = ColumnNotFound c)"
    using aggregate_no_rows by blast
  have r: "execute df intent =
      \<lparr>value = None, values = None, unit_str = None, applied_filters = af,
       record_count = 0, incomputable_metrics = None, error = Some e\<rparr>"
    by (simp add: execute_def execute_body_def assms a)
  show ?thesis using e by (auto simp: r route_def)
qed

theorem no_rows_is_execution_error_witness:
  "record_count (execute test_df (china_co2\<lparr>country := Some ''Atlantis''\<rparr>)) = 0
   \<and> error (execute test_df (china_co2\<lparr>country := Some ''Atlantis''\<rparr>)) = Some NoData
   \<and> route (execute test_df (china_co2\<lparr>country := Some ''Atlantis''\<rparr>)) False = ExecutionError"
proof -
  have f: "apply_filters test_df (china_co2\<lparr>country := Some ''Atlantis''\<rparr>) = Inr ([], [(''country'', FStr ''Atlantis'')])"
    by (simp add: exec_eval)
  have x: "error (execute test_df (china_co2\<lparr>country := Some ''Atlantis''\<rparr>)) = Some NoData"
    by (simp add: exec_eval)
  from no_rows_is_execution_error [OF f, of False] x show ?thesis by blast
qed

text \<open>
  C9. When \<open>change\<close> is among the metrics and the year-indexed series of the filtered rows
  has at least two years, execution succeeds and \<open>values\<close> holds \<open>change\<close> as the last
  yearly mean minus the first; it holds \<open>change_pct = (last - first) / first * 100\<close> when
  the first yearly mean is not zero, and has no key \<open>change_pct\<close> at all when it is zero.
\<close>

theorem change_pct_iff_first_nonzero:
  assumes "apply_filters df intent = Inr (result_df, af)"
      and "get_column_name (df_columns df) (gas intent) (sector intent) = Some col"
      and "''year'' \<in> set (df_columns df)"
      and "CHANGE_M \<in> set (metrics_to_compute intent)"
      and "2 \<le> length (year_series col result_df)"
      and "first = snd (hd (year_series col result_df))"
      and "final = snd (last (year_series col result_df))"
  shows "\<exists>vs. values (execute df intent) = Some vs \<and> error (execute df intent) = None
           \<and> map_of vs ''change'' = Some (final - first)
           \<and> (first \<noteq> 0 \<longrightarrow> map_of vs ''change_pct'' = Some ((final - first) / first * 100))
           \<and> (first = 0 \<longrightarrow> ''change_pct'' \<notin> fst ` set vs)"
proof -
  let ?vals = "List.map_filter (\<lambda>r. row_cells r col) result_df"
  let ?ts = "year_series col result_df"
  let ?ms = "metrics_to_compute intent"
  let ?res = "fst (compute_metrics (Some ?ts) ?vals ?ms)"
  let ?vs = "map (\<lambda>kv. (fst kv, the (snd kv))) ?res"
  from aggregate_all_computed[OF assms(2,3,5)] obtain v where
    a: "aggregate df (gas intent) (sector intent) ?ms result_df af =
      Inr \<lparr>value = v, values = Some ?vs, unit_str = Some (get_unit col), applied_filters = af,
           record_count = length ?vals, incomputable_metrics = None, error = None\<rparr>"
    by blast
  have ex: "execute df intent = \<lparr>value = v, values = Some ?vs, unit_str = Some (get_unit col), applied_filters = af,
           record_count = length ?vals, incomputable_metrics = None, error = None\<rparr>"
    by (simp add: execute_def execute_body_def assms(1) a)
  from assms(5) have "?ts \<noteq> []" by auto
  then have vne: "?vals \<noteq> []" by (rule year_series_values)
  have all: "\<forall>kv \<in> set ?res. snd kv \<noteq> None"
    unfolding compute_metrics_def using fold_all_computed[OF vne assms(5), of "([], [])" ?ms] by simp
  have ch: "map_of ?res ''change'' = Some (Some (final - first))"
    unfolding compute_metrics_def assms(6,7) by (rule fold_change_present[OF assms(5,4)])
  have c1: "map_of ?vs ''change'' = Some (final - first)"
    using map_of_checked[OF all, of "''change''"] ch by simp
  have c2: "first \<noteq> 0 \<longrightarrow> map_of ?vs ''change_pct'' = Some ((final - first) / first * 100)"
  proof
    assume nz: "first \<noteq> 0"
    then have "snd (hd ?ts) \<noteq> 0" by (simp add: assms(6))
    from fold_change_pct_present[OF assms(5) this assms(4), of ?vals "([], [])"]
    have "map_of ?res ''change_pct'' = Some (Some ((final - first) / first * 100))"
      by (simp add: compute_metrics_def assms(6,7))
    then show "map_of ?vs ''change_pct'' = Some ((final - first) / first * 100)"
      using map_of_checked[OF all, of "''change_pct''"] by simp
  qed
  have c3: "first = 0 \<longrightarrow> ''change_pct'' \<notin> fst ` set ?vs"
  proof
    assume z: "first = 0"
    then have "case Some ?ts of None \<Rightarrow> True | Some t \<Rightarrow> length t < 2 \<or> snd (hd t) = 0"
      by (simp add: assms(6))
    from fold_change_pct_absent[OF this, of "([], [])" ?vals ?ms]
    have "''change_pct'' \<notin> fst ` set ?res" by (simp add: compute_metrics_def)
    then show "''change_pct'' \<notin> fst ` set ?vs" unfolding keys_checked .
  qed
  from ex c1 c2 c3 show ?thesis by simp
qed

theorem change_pct_iff_first_nonzero_witness:
  "(\<exists>vs. values (execute test_df (china_co2\<lparr>metrics := Some [AVERAGE_M, CHANGE_M]\<rparr>)) = Some vs
         \<and> map_of vs ''change'' = Some 100 \<and> map_of vs ''change_pct'' = Some 10)
   \<and> (\<exists>vs. values (execute zero_df (china_co2\<lparr>metrics := Some [AVERAGE_M, CHANGE_M]\<rparr>)) = Some vs
         \<and> map_of vs ''change'' = Some 50 \<and> ''change_pct'' \<notin> fst ` set vs)"
proof -
  let ?i = "china_co2\<lparr>metrics := Some [AVERAGE_M, CHANGE_M]\<rparr>"
  have f1: "apply_filters test_df ?i =
      Inr ([test_row ''China'' 2020 1000 100, test_row ''China'' 2021 1100 110], [(''country'', FStr ''China'')])"
    by (simp add: data_eval)
  have f2: "apply_filters zero_df ?i =
      Inr ([test_row ''China'' 2020 0 0, test_row ''China'' 2021 50 5], [(''country'', FStr ''China'')])"
    by (simp add: data_eval)
  have c1: "get_column_name (df_columns test_df) (gas ?i) (sector ?i) = Some ''co2''"
    by (simp add: data_eval)
  have c2: "get_column_name (df_columns zero_df) (gas ?i) (sector ?i) = Some ''co2''"
    by (simp add: data_eval)
  have y1: "''year'' \<in> set (df_columns test_df)" "''year'' \<in> set (df_columns zero_df)"
    by (simp_all add: test_df_def zero_df_def)
  have m: "CHANGE_M \<in> set (metrics_to_compute ?i)" by (simp add: metrics_to_compute_def)
  have s1: "year_series ''co2'' [test_row ''China'' 2020 1000 100, test_row ''China'' 2021 1100 110]
              = [(2020, 1000), (2021, 1100)]"
    by (simp add: year_series_def List.map_filter_def test_row_def)
  have s2: "year_series ''co2'' [test_row ''China'' 2020 0 0, test_row ''China'' 2021 50 5]
              = [(2020, 0), (2021, 50)]"
    by (simp add: year_series_def List.map_filter_def test_row_def)
  from change_pct_iff_first_nonzero [OF f1 c1 y1(1) m, of 1000 1100] s1
  have a: "\<exists>vs. values (execute test_df ?i) = Some vs
         \<and> map_of vs ''change'' = Some 100 \<and> map_of vs ''change_pct'' = Some 10"
    by (simp; blast)
  from change_pct_iff_first_nonzero [OF f2 c2 y1(2) m, of 0 50] s2
  have b: "\<exists>vs. values (execute zero_df ?i) = Some vs
         \<and> map_of vs ''change'' = Some 50 \<and> ''change_pct'' \<notin> fst ` set vs"
    by (simp; blast)
  from a b show ?thesis by blast
qed

text \<open>
  C5. With \<open>change\<close> or \<open>trend\<close> among the metrics and a series of fewer than two years,
  the loop does record that metric as \<open>None\<close> in \<open>results\<close>, adds its name to
  \<open>incomputable\<close> and computes every other requested metric. The result that \<open>execute\<close>
  returns holds none of it: \<open>values\<close> is declared as a dict of numbers, the constructor
  of \<open>ExecutionResult\<close> rejects the \<open>None\<close> entry, and the handler of \<open>execute\<close>
  returns an error result with \<open>values\<close> and \<open>incomputable_metrics\<close> unset.
\<close>

theorem incomputable_metric_fails_execution:
  assumes "apply_filters df intent = Inr (result_df, af)"
      and "get_column_name (df_columns df) (gas intent) (sector intent) = Some col"
      and "vals = List.map_filter (\<lambda>r. row_cells r col) result_df"
      and "vals \<noteq> []"
      and "ts = (if ''year'' \<in> set (df_columns df) then Some (year_series col result_df) else None)"
      and "case ts of None \<Rightarrow> True | Some t \<Rightarrow> length t < 2"
      and "m = CHANGE_M \<or> m = TREND_M"
      and "m \<in> set (metrics_to_compute intent)"
  shows "(Metric_value m, None) \<in> set (fst (compute_metrics ts vals (metrics_to_compute intent)))
       \<and> Metric_value m \<in> set (snd (compute_metrics ts vals (metrics_to_compute intent)))
       \<and> (\<forall>m' \<in> set (metrics_to_compute intent). m' \<noteq> CHANGE_M \<and> m' \<noteq> TREND_M \<longrightarrow>
            (\<exists>x. (Metric_value m', Some x) \<in> set (fst (compute_metrics ts vals (metrics_to_compute intent)))))
       \<and> execute df intent =
           \<lparr>value = None, values = None, unit_str = None, applied_filters = af,
            record_count = 0, incomputable_metrics = None, error = Some (ExecutionFailed ValidationError)\<rparr>"
proof -
  let ?ms = "metrics_to_compute intent"
  have none: "fst (metric_value ts vals (Metric_value m) []) = None"
    using metric_value_short[OF assms(6,7)] by simp
  have p1: "(Metric_value m, None) \<in> set (fst (compute_metrics ts vals ?ms))"
    using fold_entry_present[OF assms(8), of ts vals "([], [])"] none by (simp add: compute_metrics_def)
  have p2: "Metric_value m \<in> set (snd (compute_metrics ts vals ?ms))"
    unfolding compute_metrics_def by (rule fold_incomputable_present[OF none assms(8)])
  have p3: "\<forall>m' \<in> set ?ms. m' \<noteq> CHANGE_M \<and> m' \<noteq> TREND_M \<longrightarrow>
            (\<exists>x. (Metric_value m', Some x) \<in> set (fst (compute_metrics ts vals ?ms)))"
  proof (intro ballI impI)
    fix m' assume m': "m' \<in> set ?ms" "m' \<noteq> CHANGE_M \<and> m' \<noteq> TREND_M"
    then obtain x where "fst (metric_value ts vals (Metric_value m') []) = Some x"
      using metric_value_computable_other[OF assms(4)] by blast
    with fold_entry_present[OF m'(1), of ts vals "([], [])"]
    show "\<exists>x. (Metric_value m', Some x) \<in> set (fst (compute_metrics ts vals ?ms))"
      by (auto simp: compute_metrics_def)
  qed
  have vv: "validate_values (fst (compute_metrics ts vals ?ms)) = Inl ValidationError"
    using p1 by (rule validate_values_None)
  from resolved_column_nonempty[OF assms(2)] have c: "col \<noteq> []" "col \<in> set (df_columns df)" by simp_all
  obtain results incomputable where ri: "compute_metrics ts vals ?ms = (results, incomputable)"
    by (cases "compute_metrics ts vals ?ms")
  have ag: "aggregate df (gas intent) (sector intent) ?ms result_df af = Inl (ValidationError, af)"
    using c assms(2,4) vv ri assms(3)[symmetric] assms(5)[symmetric]
    by (simp add: aggregate_def Let_def)
  have ex: "execute df intent =
           \<lparr>value = None, values = None, unit_str = None, applied_filters = af,
            record_count = 0, incomputable_metrics = None, error = Some (ExecutionFailed ValidationError)\<rparr>"
    by (simp add: execute_def execute_body_def assms(1) ag)
  from p1 p2 p3 ex show ?thesis by blast
qed

theorem incomputable_metric_fails_execution_witness:
  "(''sum'', Some 1000) \<in> set (fst (compute_metrics (Some [(2020, 1000)]) [1000] [CHANGE_M, SUM_M]))
   \<and> (''change'', None) \<in> set (fst (compute_metrics (Some [(2020, 1000)]) [1000] [CHANGE_M, SUM_M]))
   \<and> ''change'' \<in> set (snd (compute_metrics (Some [(2020, 1000)]) [1000] [CHANGE_M, SUM_M]))
   \<and> execute test_df (china_co2\<lparr>metrics := Some [CHANGE_M, SUM_M],
                          year_filter := Some \<lparr>year = Some 2020, year_min = None, year_max = None\<rparr>\<rparr>) =
     \<lparr>value = None, values = None, unit_str = None,
      applied_filters = [(''country'', FStr ''China''), (''year'', FInt 2020)],
      record_count = 0, incomputable_metrics = None, error = Some (ExecutionFailed ValidationError)\<rparr>"
proof -
  let ?i = "china_co2\<lparr>metrics := Some [CHANGE_M, SUM_M],
                          year_filter := Some \<lparr>year = Some 2020, year_min = None, year_max = None\<rparr>\<rparr>"
  have f: "apply_filters test_df ?i =
      Inr ([test_row ''China'' 2020 1000 100], [(''country'', FStr ''China''), (''year'', FInt 2020)])"
    by (simp add: data_eval)
  have c: "get_column_name (df_columns test_df) (gas ?i) (sector ?i) = Some ''co2''"
    by (simp add: data_eval)
  have v: "[1000] = List.map_filter (\<lambda>r. row_cells r ''co2'') [test_row ''China'' 2020 1000 100]"
    by (simp add: List.map_filter_def test_row_def)
  have t: "Some [(2020, 1000)] = (if ''year'' \<in> set (df_columns test_df)
              then Some (year_series ''co2'' [test_row ''China'' 2020 1000 100]) else None)"
    by (simp add: year_series_def List.map_filter_def test_row_def test_df_def)
  have ms: "metrics_to_compute ?i = [CHANGE_M, SUM_M]" by (simp add: metrics_to_compute_def)
  have s: "(''sum'', Some 1000) \<in> set (fst (compute_metrics (Some [(2020, 1000)]) [1000] [CHANGE_M, SUM_M]))"
    by (simp add: compute_metrics_def metric_step_def metric_value_def dict_set_def series_sum_def Let_def)
  from incomputable_metric_fails_execution [OF f c v _ t, of CHANGE_M] s
  show ?thesis by (simp add: ms)
qed

text \<open>
  C6. With \<open>change\<close> as the one requested metric over two years, \<open>results\<close> holds two
  entries (\<open>change_pct\<close> and \<open>change\<close>), so the test \<open>len(results) == 1\<close> fails and
  \<open>value\<close> stays unset although exactly one metric was requested: \<open>value\<close> does not
  mirror the entry \<open>change\<close> of \<open>values\<close>.
\<close>

theorem single_change_value_not_mirrored:
  "execute test_df (china_co2\<lparr>metric := Some CHANGE_M\<rparr>) =
     \<lparr>value = None, values = Some [(''change_pct'', 10), (''change'', 100)],
      unit_str = Some ''million tonnes'', applied_filters = [(''country'', FStr ''China'')],
      record_count = 2, incomputable_metrics = None, error = None\<rparr>"
  by (simp add: exec_eval Let_def)

section \<open>Claims about the query endpoint\<close>

text \<open>
  C10. An extracted intent that is not flagged as greeting, small talk or explanatory, and
  that has no country, no year filter value, no metric or metrics and no sector, gets the
  clarification answer of the underspecification gate, whatever \<open>needs_clarification\<close>
  holds and whatever the validator and the executor would do: the answer is the same for
  every validator and executor, so neither is consulted.
\<close>

theorem underspecified_gate:
  assumes "\<not> is_greeting intent" "\<not> is_small_talk intent" "\<not> is_explanatory intent"
      and "\<not> truthy_str (country intent)"
      and "case year_filter intent of None \<Rightarrow> True
           | Some yf \<Rightarrow> year yf = None \<and> year_min yf = None \<and> year_max yf = None"
      and "metric intent = None"
      and "case metrics intent of None \<Rightarrow> True | Some ms \<Rightarrow> ms = []"
      and "sector intent = None"
  shows "post_with validator executor last_intent intent = Clarification underspecified_question
         \<and> post df last_intent intent = Clarification underspecified_question"
proof -
  have m: "merge_follow_up last_intent intent = intent"
    using assms(3) by (rule merge_follow_up_not_explanatory)
  have u: "is_underspecified (Some intent)"
    using assms(4-8) by (simp add: is_underspecified_iff)
  have "post_with v e last_intent intent = Clarification underspecified_question" for v e
    using assms(1-3) u by (simp add: post_with_def m)
  then show ?thesis by (simp add: post_def)
qed

theorem underspecified_gate_witness:
  "post_with (\<lambda>i. Failure [''never called''] False ''never called'') (\<lambda>q. execute test_df q) None
      (QueryIntent_default\<lparr>gas := Some CO2, needs_clarification := True\<rparr>)
     = Clarification underspecified_question
   \<and> post test_df None (QueryIntent_default\<lparr>gas := Some CO2, needs_clarification := True\<rparr>)
     = Clarification underspecified_question"
  using underspecified_gate [where intent = "QueryIntent_default\<lparr>gas := Some CO2, needs_clarification := True\<rparr>"
      and validator = "\<lambda>i. Failure [''never called''] False ''never called''"
      and executor = "\<lambda>q. execute test_df q" and last_intent = None and df = test_df]
  by (simp add: QueryIntent_default_def truthy_str_def)

section \<open>Claims about the extractor\<close>

text \<open>
  C2. \<open>extract_intent\<close> is to return an intent for every text and never raise. On the
  path without a provider it raises: whenever the year patterns yield a year outside
  1800..2100 (as in \<open>from 1700 to 1800\<close>), the constructor of \<open>QueryIntent\<close> raises
  \<open>ValidationError\<close>, and this path has no handler. The path with a provider catches
  every exception of its body (\<open>extract_intent_llm_error\<close>).
\<close>

theorem offline_extraction_raises:
  assumes "year_refs (case md_year_range md of None \<Rightarrow> None | Some (mn, mx) \<Rightarrow> Some mx) (lower user_query) = Some yf"
      and "\<not> valid_YearFilter yf"
  shows "extract_intent_offline md user_query = Inl ValidationError
       \<and> extract_intent json_loads md user_query None = Inl ValidationError"
proof -
  have "d_year_filter (offline_dict md user_query) = YearDict yf"
    using assms(1) by (simp add: offline_dict_year_filter)
  from QueryIntent_of_dict_invalid_year[OF this assms(2)]
  show ?thesis by (simp add: extract_intent_offline_def extract_intent_def)
qed

theorem offline_extraction_raises_witness:
  "extract_intent_offline test_md ''China co2 emissions from 1700 to 1800'' = Inl ValidationError
   \<and> extract_intent (\<lambda>s. DecodeError) test_md ''China co2 emissions from 1700 to 1800'' None = Inl ValidationError"
proof -
  have l: "lower ''China co2 emissions from 1700 to 1800'' = ''china co2 emissions from 1700 to 1800''"
    by (simp add: lower_eval)
  have y: "year_refs (Some 2021) ''china co2 emissions from 1700 to 1800''
             = Some \<lparr>year = None, year_min = Some 1700, year_max = Some 1800\<rparr>"
    by (simp add: rx_eval)
  have a: "year_refs (case md_year_range test_md of None \<Rightarrow> None | Some (mn, mx) \<Rightarrow> Some mx)
             (lower ''China co2 emissions from 1700 to 1800'')
             = Some \<lparr>year = None, year_min = Some 1700, year_max = Some 1800\<rparr>"
    by (simp only: l y test_md_def schema_metadata.simps option.case prod.case)
  have b: "\<not> valid_YearFilter \<lparr>year = None, year_min = Some 1700, year_max = Some 1800\<rparr>"
    by (simp add: valid_YearFilter_def validate_year_def)
  from offline_extraction_raises [OF a b] show ?thesis .
qed





end
